theory Spec2Isabelle
  imports Main "HOL-Library.Char_ord" "HOL-Library.List_Lexorder"
begin

section \<open>JavaScript values used by the access layer\<close>

text \<open>
  A JavaScript string is a sequence of UTF-16 code units. The strings of this program
  (column names, status labels, Portuguese messages, operator names) stay inside
  U+0000..U+00FF, so a string is modelled as a \<^typ>\<open>string\<close> whose characters are the
  code units 0..255. The order of \<^theory_text>\<open>HOL-Library.Char_ord\<close> compares code units and
  the order of \<^theory_text>\<open>HOL-Library.List_Lexorder\<close> is the lexicographic one with a proper
  prefix first: together they are the comparison \<^verbatim>\<open>Array.prototype.sort()\<close> uses when it is
  called without a comparator on strings.

  A column value read from the store is \<^typ>\<open>string option\<close>: \<^term>\<open>None\<close> is SQL NULL
  (JavaScript \<^verbatim>\<open>null\<close>/\<^verbatim>\<open>undefined\<close>).
\<close>

text \<open>\<^verbatim>\<open>new Set(xs)\<close> adds the elements in order; a set keeps insertion order and
  ignores an element it already holds. \<^verbatim>\<open>Array.from\<close> lists it in that order.\<close>

fun Set_add_all :: "'a list \<Rightarrow> 'a list \<Rightarrow> 'a list" where
  "Set_add_all seen [] = seen"
| "Set_add_all seen (x # xs) =
     Set_add_all (if x \<in> set seen then seen else seen @ [x]) xs"

definition Array_from_Set :: "'a list \<Rightarrow> 'a list" where
  "Array_from_Set xs = Set_add_all [] xs"

text \<open>\<^verbatim>\<open>.filter(Boolean)\<close> on column values: \<^verbatim>\<open>null\<close> and the empty string are
  falsy, every other string is truthy.\<close>

fun filter_Boolean :: "string option list \<Rightarrow> string list" where
  "filter_Boolean [] = []"
| "filter_Boolean (None # xs) = filter_Boolean xs"
| "filter_Boolean (Some s # xs) =
     (if s = [] then filter_Boolean xs else s # filter_Boolean xs)"

text \<open>\<^verbatim>\<open>String.prototype.toLowerCase\<close> on the code units 0..255: the letters A..Z and
  the upper-case letters U+00C0..U+00DE (without the multiplication sign U+00D7) move up
  by 32, every other unit stays.\<close>

definition toLowerCase_unit :: "char \<Rightarrow> char" where
  "toLowerCase_unit c =
     (let n = (of_char c :: nat)
      in if (65 \<le> n \<and> n \<le> 90) \<or> (192 \<le> n \<and> n \<le> 222 \<and> n \<noteq> 215)
         then char_of (n + 32) else c)"

definition toLowerCase :: "string \<Rightarrow> string" where
  "toLowerCase s = map toLowerCase_unit s"

section \<open>The external store\<close>

text \<open>
  The three tables the program reads and writes. The column whose name is
  \<^verbatim>\<open>Usuario_Operacao\<close> spelled with a cedilla and a tilde is written with a prime:
  \<open>Usuario_Operacao'\<close>.
\<close>

record Cadastro_row =
  Cadastro_Usuario_Operacao' :: "string option"

record SMO_row =
  ID_Manifesto :: "string option"
  Status :: "string option"
  Usuario_Operacao :: "string option"
  Usuario_Operacao' :: "string option"
  Usuario :: "string option"
  CIA :: "string option"
  Manifesto_Disponivel :: "string option"
  Manifesto_Iniciado :: "string option"

record registro =
  manifesto_id :: string
  acao :: string
  nome :: string
  created_at :: string

record database =
  Cadastro_Operacional :: "Cadastro_row list"
  SMO_Sistema :: "SMO_row list"
  registros_operacionais :: "registro list"

text \<open>
  What the client library hands back for one request, as the access layer reads it (the
  module \<^verbatim>\<open>supabaseClient\<close> is not among the source files). A request either resolves to a
  response object \<^verbatim>\<open>{data, error}\<close> or rejects (the \<^verbatim>\<open>await\<close> throws); the
  message of a rejection is what \<^verbatim>\<open>error.message\<close> reads in a \<^verbatim>\<open>catch\<close> block.
  How a request behaves is decided by the environment, so it is a parameter of every
  operation: the request works, resolves with neither data nor error, resolves with a
  reported error, or throws.
\<close>

datatype fault = Works | NoData | Reports string | Throws string

record 'r PostgrestResponse =
  data :: "'r list option"
  error :: "string option"

datatype 'a awaited = Resolves 'a | Rejects string

definition supabase_select :: "fault \<Rightarrow> 'r list \<Rightarrow> 'r PostgrestResponse awaited" where
  "supabase_select f rows =
     (case f of
        Works \<Rightarrow> Resolves \<lparr>data = Some rows, error = None\<rparr>
      | NoData \<Rightarrow> Resolves \<lparr>data = None, error = None\<rparr>
      | Reports m \<Rightarrow> Resolves \<lparr>data = None, error = Some m\<rparr>
      | Throws m \<Rightarrow> Rejects m)"

section \<open>Read operations of the access layer\<close>

subsection \<open>fetchNames\<close>

text \<open>The same function in all three versions of the access layer. The optional
  \<^verbatim>\<open>status\<close> argument is never read.\<close>

definition fetchNames :: "fault \<Rightarrow> database \<Rightarrow> string option \<Rightarrow> string list" where
  "fetchNames f db status =
     (case supabase_select f (Cadastro_Operacional db) of
        Rejects e \<Rightarrow> []
      | Resolves r \<Rightarrow>
          if error r \<noteq> None then []
          else (case data r of
                  None \<Rightarrow> []
                | Some d \<Rightarrow>
                    sort (filter_Boolean
                      (Array_from_Set (map Cadastro_Usuario_Operacao' d)))))"

text \<open>
  The filters of the query builder, on the rows of one table. An equality filter never
  matches SQL NULL; \<^verbatim>\<open>.is(col, null)\<close> matches exactly NULL and
  \<^verbatim>\<open>.not(col, 'is', null)\<close> its complement.
\<close>

definition pg_eq :: "('r \<Rightarrow> string option) \<Rightarrow> string \<Rightarrow> 'r list \<Rightarrow> 'r list" where
  "pg_eq col v rows = filter (\<lambda>r. col r = Some v) rows"

definition pg_is_null :: "('r \<Rightarrow> string option) \<Rightarrow> 'r list \<Rightarrow> 'r list" where
  "pg_is_null col rows = filter (\<lambda>r. col r = None) rows"

definition pg_not_is_null :: "('r \<Rightarrow> string option) \<Rightarrow> 'r list \<Rightarrow> 'r list" where
  "pg_not_is_null col rows = filter (\<lambda>r. col r \<noteq> None) rows"

text \<open>Modelled from the spec: the filter \<^verbatim>\<open>.neq('CIA', null)\<close> of \<^verbatim>\<open>fetchCIAs\<close>
  belongs to the client library, which is not among the source files; the specification
  reads it as the rows whose company code is not absent.\<close>

definition pg_neq_null :: "('r \<Rightarrow> string option) \<Rightarrow> 'r list \<Rightarrow> 'r list" where
  "pg_neq_null col rows = filter (\<lambda>r. col r \<noteq> None) rows"

subsection \<open>fetchManifestosForEmployee\<close>

text \<open>\<^verbatim>\<open>src/services/api.ts\<close> (and, word for word, \<^verbatim>\<open>part_000\<close>): the rows of the
  employee whose \<^verbatim>\<open>Status\<close> is \<^verbatim>\<open>'Manifesto Iniciado'\<close>. The ids are returned as
  read, without \<^verbatim>\<open>filter(Boolean)\<close>, a set or a sort.\<close>

definition fetchManifestosForEmployee ::
  "fault \<Rightarrow> database \<Rightarrow> string \<Rightarrow> string option list" where
  "fetchManifestosForEmployee f db name =
     (case supabase_select f
             (pg_eq Status ''Manifesto Iniciado''
               (pg_eq Usuario_Operacao name (SMO_Sistema db))) of
        Rejects e \<Rightarrow> []
      | Resolves r \<Rightarrow>
          if error r \<noteq> None then []
          else (case data r of
                  None \<Rightarrow> []
                | Some d \<Rightarrow> map ID_Manifesto d))"

text \<open>\<^verbatim>\<open>part_001\<close>: the rows of the employee with \<^verbatim>\<open>Manifesto_Disponivel\<close> NULL and
  \<^verbatim>\<open>Manifesto_Iniciado\<close> not NULL.\<close>

definition fetchManifestosForEmployee_part_001 ::
  "fault \<Rightarrow> database \<Rightarrow> string \<Rightarrow> string option list" where
  "fetchManifestosForEmployee_part_001 f db name =
     (case supabase_select f
             (pg_not_is_null Manifesto_Iniciado
               (pg_is_null Manifesto_Disponivel
                 (pg_eq Usuario_Operacao name (SMO_Sistema db)))) of
        Rejects e \<Rightarrow> []
      | Resolves r \<Rightarrow>
          if error r \<noteq> None then []
          else (case data r of
                  None \<Rightarrow> []
                | Some d \<Rightarrow> map ID_Manifesto d))"

subsection \<open>fetchCIAs\<close>

text \<open>The same function in all three versions. Without a comparator,
  \<^verbatim>\<open>sort()\<close> compares the elements as strings; \<^verbatim>\<open>null\<close> reads \<^verbatim>\<open>"null"\<close>.
  The sort is stable, as \<^term>\<open>sort_key\<close> is.\<close>

definition js_String :: "string option \<Rightarrow> string" where
  "js_String v = (case v of None \<Rightarrow> ''null'' | Some s \<Rightarrow> s)"

definition fetchCIAs :: "fault \<Rightarrow> database \<Rightarrow> string option list" where
  "fetchCIAs f db =
     (case supabase_select f (pg_neq_null CIA (SMO_Sistema db)) of
        Rejects e \<Rightarrow> []
      | Resolves r \<Rightarrow>
          if error r \<noteq> None then [Some ''CIA A'', Some ''CIA B'', Some ''CIA C'']
          else sort_key js_String
                 (Array_from_Set
                   (map CIA (case data r of None \<Rightarrow> [] | Some d \<Rightarrow> d))))"

section \<open>The write operation: submitManifestoAction\<close>

text \<open>
  The environment of one submission: how the insert, the update and the webhook request
  behave, and what the two clock readings \<^verbatim>\<open>new Date().toISOString()\<close> and
  \<^verbatim>\<open>new Date().toLocaleString('pt-BR')\<close> return. The webhook request rejects when
  \<open>fetch_rejects\<close> holds the error.
\<close>

record submit_env =
  insert_fault :: fault
  update_fault :: fault
  fetch_rejects :: "string option"
  toISOString_now :: string
  toLocaleString_ptBR_now :: string

text \<open>The requests a submission issues, in order. A request is recorded when it is
  issued, whatever becomes of it. The body of a POST is the JSON object as its list of
  keys and values.\<close>

datatype call =
    Insert_registros registro
  | Update_SMO string string string
  | POST string "(string \<times> string) list"
  | Console_error string

text \<open>\<open>Update_SMO newStatus name id'\<close> is
  \<^verbatim>\<open>.update({ Status: newStatus, Usuario_Operacao: name }).eq('ID_Manifesto', id)\<close>.
  The parameter \<^verbatim>\<open>id\<close> of the source is written \<open>id'\<close>, since \<^term>\<open>id\<close> is the
  identity function.\<close>

record submit_result =
  success :: bool
  message :: string

record submission =
  result :: submit_result
  store :: database
  calls :: "call list"

text \<open>The effect of a request that reaches the store: the insert appends the row, the
  update rewrites the two columns of every row with the given id.\<close>

definition insert_row :: "registro \<Rightarrow> database \<Rightarrow> database" where
  "insert_row row db = db\<lparr>registros_operacionais := registros_operacionais db @ [row]\<rparr>"

definition update_rows :: "string \<Rightarrow> string \<Rightarrow> string \<Rightarrow> database \<Rightarrow> database" where
  "update_rows newStatus name id' db =
     db\<lparr>SMO_Sistema :=
          map (\<lambda>r. if ID_Manifesto r = Some id'
                   then r\<lparr>Status := Some newStatus, Usuario_Operacao := Some name\<rparr>
                   else r)
              (SMO_Sistema db)\<rparr>"

definition supabase_insert ::
  "fault \<Rightarrow> registro \<Rightarrow> database \<Rightarrow>
     (registro PostgrestResponse \<times> database) awaited" where
  "supabase_insert f row db =
     (case f of
        Throws m \<Rightarrow> Rejects m
      | Reports m \<Rightarrow> Resolves (\<lparr>data = None, error = Some m\<rparr>, db)
      | _ \<Rightarrow> Resolves (\<lparr>data = None, error = None\<rparr>, insert_row row db))"

definition supabase_update ::
  "fault \<Rightarrow> string \<Rightarrow> string \<Rightarrow> string \<Rightarrow> database \<Rightarrow> database awaited" where
  "supabase_update f newStatus name id' db =
     (case f of
        Throws m \<Rightarrow> Rejects m
      | Reports m \<Rightarrow> Resolves db
      | _ \<Rightarrow> Resolves (update_rows newStatus name id' db))"

text \<open>The outer \<^verbatim>\<open>catch\<close> block, the same in all three versions.\<close>

definition catch_error :: "string \<Rightarrow> database \<Rightarrow> call list \<Rightarrow> submission" where
  "catch_error m db cs =
     \<lparr>result = \<lparr>success = False, message = ''Erro ao processar: '' @ m\<rparr>,
      store = db, calls = cs\<rparr>"

text \<open>A webhook request inside its own \<^verbatim>\<open>try\<close>: a rejection is logged to the console
  and the function goes on.\<close>

definition try_fetch :: "submit_env \<Rightarrow> string \<Rightarrow> (string \<times> string) list \<Rightarrow> call list" where
  "try_fetch env url body =
     POST url body #
     (case fetch_rejects env of
        None \<Rightarrow> []
      | Some webhookError \<Rightarrow> [Console_error ''Webhook error:''])"

subsection \<open>\<^verbatim>\<open>src/services/api.ts\<close>\<close>

text \<open>The labels are \<^verbatim>\<open>'Iniciar Puxe'\<close> and \<^verbatim>\<open>'Finalizar Puxe'\<close>; there is no
  webhook. \<open>return_message\<close> is the code after the \<^verbatim>\<open>if (!error)\<close> block. The second
  message ends in \<^verbatim>\<open>concluido!\<close> with an acute accent on its first i (U+00ED).\<close>

definition return_message :: "string \<Rightarrow> database \<Rightarrow> call list \<Rightarrow> submission" where
  "return_message action db cs =
     (if action = ''Iniciar Puxe'' then
        \<lparr>result = \<lparr>success = True, message = ''Puxe registrado com sucesso!''\<rparr>,
         store = db, calls = cs\<rparr>
      else if action = ''Finalizar Puxe'' then
        \<lparr>result = \<lparr>success = True,
                   message = ''Obrigado, puxe conclu'' @ [CHR 0xED] @ ''do!''\<rparr>,
         store = db, calls = cs\<rparr>
      else
        \<lparr>result = \<lparr>success = True, message = ''Registro salvo com sucesso!''\<rparr>,
         store = db, calls = cs\<rparr>)"

definition submitManifestoAction ::
  "submit_env \<Rightarrow> string \<Rightarrow> string \<Rightarrow> string \<Rightarrow> database \<Rightarrow> submission" where
  "submitManifestoAction env action id' name db =
     (let row = \<lparr>manifesto_id = id', acao = action, nome = name,
                 created_at = toISOString_now env\<rparr>
      in case supabase_insert (insert_fault env) row db of
           Rejects m \<Rightarrow> catch_error m db [Insert_registros row]
         | Resolves (r, db1) \<Rightarrow>
             if error r = None then
               (let newStatus = (if action = ''Iniciar Puxe'' then ''Manifesto Iniciado''
                                 else ''Manifesto Finalizado'')
                in case supabase_update (update_fault env) newStatus name id' db1 of
                     Rejects m \<Rightarrow>
                       catch_error m db1
                         [Insert_registros row, Update_SMO newStatus name id']
                   | Resolves db2 \<Rightarrow>
                       return_message action db2
                         [Insert_registros row, Update_SMO newStatus name id'])
             else return_message action db1 [Insert_registros row])"

subsection \<open>\<^verbatim>\<open>src/unnamed/part_000\<close>\<close>

text \<open>The labels are \<^verbatim>\<open>'Iniciar Manifesto'\<close> and \<^verbatim>\<open>'Finalizar Manifesto'\<close>; the start
  action posts to the webhook. \<open>webhook_and_message_part_000\<close> is the code after the
  \<^verbatim>\<open>if (!error)\<close> block.\<close>

definition Iniciar_Manifesto_url :: string where
  "Iniciar_Manifesto_url =
     ''https://projeto-teste-n8n.ly7t0m.easypanel.host/webhook/Iniciar-Manifesto''"

definition Manifesto_Operacional_url :: string where
  "Manifesto_Operacional_url =
     ''https://projeto-teste-n8n.ly7t0m.easypanel.host/webhook/Manifesto-Operacional''"

definition return_message_Manifesto :: "string \<Rightarrow> database \<Rightarrow> call list \<Rightarrow> submission" where
  "return_message_Manifesto action db cs =
     (if action = ''Iniciar Manifesto'' then
        \<lparr>result = \<lparr>success = True, message = ''Manifesto iniciado com sucesso!''\<rparr>,
         store = db, calls = cs\<rparr>
      else if action = ''Finalizar Manifesto'' then
        \<lparr>result = \<lparr>success = True, message = ''Manifesto finalizado com sucesso!''\<rparr>,
         store = db, calls = cs\<rparr>
      else
        \<lparr>result = \<lparr>success = True, message = ''Registro salvo com sucesso!''\<rparr>,
         store = db, calls = cs\<rparr>)"

definition webhook_and_message_part_000 ::
  "submit_env \<Rightarrow> string \<Rightarrow> string \<Rightarrow> string \<Rightarrow> database \<Rightarrow> call list \<Rightarrow> submission" where
  "webhook_and_message_part_000 env action id' name db cs =
     (let webhook =
            (if action = ''Iniciar Manifesto'' then
               (let formattedDate = toLocaleString_ptBR_now env
                in try_fetch env Iniciar_Manifesto_url
                     [(''id_manifesto'', id'), (''nome'', name),
                      (''Manifesto_Iniciado'', formattedDate)])
             else [])
      in return_message_Manifesto action db (cs @ webhook))"

definition submitManifestoAction_part_000 ::
  "submit_env \<Rightarrow> string \<Rightarrow> string \<Rightarrow> string \<Rightarrow> database \<Rightarrow> submission" where
  "submitManifestoAction_part_000 env action id' name db =
     (let row = \<lparr>manifesto_id = id', acao = action, nome = name,
                 created_at = toISOString_now env\<rparr>
      in case supabase_insert (insert_fault env) row db of
           Rejects m \<Rightarrow> catch_error m db [Insert_registros row]
         | Resolves (r, db1) \<Rightarrow>
             if error r = None then
               (let newStatus = (if action = ''Iniciar Manifesto'' then ''Manifesto Iniciado''
                                 else ''Manifesto Finalizado'')
                in case supabase_update (update_fault env) newStatus name id' db1 of
                     Rejects m \<Rightarrow>
                       catch_error m db1
                         [Insert_registros row, Update_SMO newStatus name id']
                   | Resolves db2 \<Rightarrow>
                       webhook_and_message_part_000 env action id' name db2
                         [Insert_registros row, Update_SMO newStatus name id'])
             else webhook_and_message_part_000 env action id' name db1
                    [Insert_registros row])"

subsection \<open>\<^verbatim>\<open>src/unnamed/part_001\<close>\<close>

text \<open>The labels of \<^verbatim>\<open>part_000\<close>; the start and the finish action both post, to two
  paths. \<open>webhook_and_message_part_001\<close> is the code after the \<^verbatim>\<open>if (!error)\<close>
  block.\<close>

definition webhook_and_message_part_001 ::
  "submit_env \<Rightarrow> string \<Rightarrow> string \<Rightarrow> string \<Rightarrow> database \<Rightarrow> call list \<Rightarrow> submission" where
  "webhook_and_message_part_001 env action id' name db cs =
     (let webhookUrl = (if action = ''Iniciar Manifesto'' then Iniciar_Manifesto_url
                        else Manifesto_Operacional_url);
          formattedDate = toLocaleString_ptBR_now env;
          webhookBody =
            (if action = ''Iniciar Manifesto'' then
               [(''id_manifesto'', id'), (''nome'', name),
                (''Manifesto_Iniciado'', formattedDate)]
             else if action = ''Finalizar Manifesto'' then
               [(''id_manifesto'', id'), (''nome'', name),
                (''Manifesto_Finalizado'', formattedDate)]
             else []);
          webhook = (if length webhookBody > 0 then try_fetch env webhookUrl webhookBody
                     else [])
      in return_message_Manifesto action db (cs @ webhook))"

definition submitManifestoAction_part_001 ::
  "submit_env \<Rightarrow> string \<Rightarrow> string \<Rightarrow> string \<Rightarrow> database \<Rightarrow> submission" where
  "submitManifestoAction_part_001 env action id' name db =
     (let row = \<lparr>manifesto_id = id', acao = action, nome = name,
                 created_at = toISOString_now env\<rparr>
      in case supabase_insert (insert_fault env) row db of
           Rejects m \<Rightarrow> catch_error m db [Insert_registros row]
         | Resolves (r, db1) \<Rightarrow>
             if error r = None then
               (let newStatus = (if action = ''Iniciar Manifesto'' then ''Manifesto Iniciado''
                                 else ''Manifesto Finalizado'')
                in case supabase_update (update_fault env) newStatus name id' db1 of
                     Rejects m \<Rightarrow>
                       catch_error m db1
                         [Insert_registros row, Update_SMO newStatus name id']
                   | Resolves db2 \<Rightarrow>
                       webhook_and_message_part_001 env action id' name db2
                         [Insert_registros row, Update_SMO newStatus name id'])
             else webhook_and_message_part_001 env action id' name db1
                    [Insert_registros row])"

text \<open>The webhook requests among the calls of a submission.\<close>

fun webhook_posts :: "call list \<Rightarrow> (string \<times> (string \<times> string) list) list" where
  "webhook_posts [] = []"
| "webhook_posts (POST url body # cs) = (url, body) # webhook_posts cs"
| "webhook_posts (c # cs) = webhook_posts cs"

fun status_updates :: "call list \<Rightarrow> (string \<times> string \<times> string) list" where
  "status_updates [] = []"
| "status_updates (Update_SMO newStatus name id' # cs) =
     (newStatus, name, id') # status_updates cs"
| "status_updates (c # cs) = status_updates cs"

section \<open>The root component: \<^verbatim>\<open>src/App.tsx\<close>\<close>

text \<open>
  The state of the component, one field for each \<^verbatim>\<open>useState\<close>. The \<^verbatim>\<open>type\<close> of a
  feedback message is one of the strings \<^verbatim>\<open>'success'\<close>, \<^verbatim>\<open>'error'\<close> and \<^verbatim>\<open>''\<close>;
  \<^verbatim>\<open>lastSubmission\<close> is a string or \<^verbatim>\<open>null\<close>. The two fields of a feedback message
  are \<open>fb_text\<close> and \<open>fb_type\<close>.
\<close>

record FeedbackMessage =
  fb_text :: string
  fb_type :: string

record app_state =
  action :: string
  name :: string
  selectedManifestoId :: string
  namesList :: "string list"
  idsList :: "string list"
  manifestosForEmployee :: "string option list"
  loading :: bool
  loadingMessage :: string
  updating :: bool
  feedback :: FeedbackMessage
  lastSubmission :: "string option"

text \<open>
  What a handler leaves for later: a timer, or an asynchronous function suspended at its
  \<^verbatim>\<open>await\<close>. The submit timer carries what its callback closes over: the action, the
  manifest id, the name and the key of the render that set it. A handler that leaves
  nothing calls no backend.
\<close>

datatype command =
    SetTimeout_submit nat string string string string
  | SetTimeout_clearFeedback nat
  | SetTimeout_updatingOff nat
  | Await_loadNames
  | Await_loadIds
  | Await_loadIdsFinalization
  | Await_fetchManifestosForEmployee string

text \<open>The three loaders up to their \<^verbatim>\<open>await\<close> (the calls \<^verbatim>\<open>fetchNames()\<close>,
  \<^verbatim>\<open>fetchIdsByStatus('Manifesto Recebido')\<close> and \<^verbatim>\<open>fetchNames('Manifesto Iniciado')\<close>),
  and from the value the call returned.\<close>

definition loadNames :: "app_state \<Rightarrow> app_state \<times> command list" where
  "loadNames s = (s, [Await_loadNames])"

definition loadNames_resumed :: "string list \<Rightarrow> app_state \<Rightarrow> app_state \<times> command list" where
  "loadNames_resumed names s = (s\<lparr>namesList := names\<rparr>, [])"

definition loadIds :: "app_state \<Rightarrow> app_state \<times> command list" where
  "loadIds s = (s\<lparr>updating := True\<rparr>, [Await_loadIds])"

definition loadIds_resumed :: "string list \<Rightarrow> app_state \<Rightarrow> app_state \<times> command list" where
  "loadIds_resumed ids s = (s\<lparr>idsList := ids\<rparr>, [SetTimeout_updatingOff 500])"

definition loadIdsFinalization :: "app_state \<Rightarrow> app_state \<times> command list" where
  "loadIdsFinalization s = (s\<lparr>updating := True\<rparr>, [Await_loadIdsFinalization])"

definition loadIdsFinalization_resumed ::
  "string list \<Rightarrow> app_state \<Rightarrow> app_state \<times> command list" where
  "loadIdsFinalization_resumed names s =
     (s\<lparr>namesList := names\<rparr>, [SetTimeout_updatingOff 500])"

text \<open>One statement after another: the second runs in the state the first left, and
  what both leave for later is kept in order.\<close>

definition and_then ::
  "app_state \<times> command list \<Rightarrow> (app_state \<Rightarrow> app_state \<times> command list) \<Rightarrow>
     app_state \<times> command list" where
  "and_then r f = (fst (f (fst r)), snd r @ snd (f (fst r)))"

text \<open>The effect that runs when \<^verbatim>\<open>action\<close> has changed, and the \<^verbatim>\<open>onChange\<close> of the
  action select that changes it.\<close>

definition action_effect :: "app_state \<Rightarrow> app_state \<times> command list" where
  "action_effect s0 =
     (let s = s0\<lparr>feedback := \<lparr>fb_text = [], fb_type = []\<rparr>, name := [],
                  selectedManifestoId := [], manifestosForEmployee := []\<rparr>
      in if action s = ''Iniciar Puxe'' then and_then (loadNames s) loadIds
         else if action s = ''Finalizar Puxe'' then loadIdsFinalization s
         else (s, []))"

definition setAction :: "string \<Rightarrow> app_state \<Rightarrow> app_state \<times> command list" where
  "setAction val s = (if val = action s then (s, []) else action_effect (s\<lparr>action := val\<rparr>))"

definition handleRefresh :: "app_state \<Rightarrow> app_state \<times> command list" where
  "handleRefresh s =
     (if updating s then (s, [])
      else if action s = ''Iniciar Puxe'' then and_then (loadIds s) loadNames
      else if action s = ''Finalizar Puxe'' then loadIdsFinalization s
      else (s, []))"

definition handleNameChange :: "string \<Rightarrow> app_state \<Rightarrow> app_state \<times> command list" where
  "handleNameChange val s0 =
     (let s = s0\<lparr>name := val, selectedManifestoId := []\<rparr>
      in if action s = ''Finalizar Puxe'' \<and> val \<noteq> []
         then (s, [Await_fetchManifestosForEmployee val])
         else (s\<lparr>manifestosForEmployee := []\<rparr>, []))"

text \<open>The two handlers of the real-time channel, for a change of \<^verbatim>\<open>SMO_Sistema\<close> and
  for a change of \<^verbatim>\<open>Cadastro_Operacional\<close>.\<close>

definition on_SMO_Sistema_change :: "app_state \<Rightarrow> app_state \<times> command list" where
  "on_SMO_Sistema_change s =
     (if action s = ''Iniciar Puxe'' then loadIds s
      else if action s = ''Finalizar Puxe'' then
        (if name s \<noteq> [] then (s, [Await_fetchManifestosForEmployee (name s)]) else (s, []))
      else (s, []))"

definition on_Cadastro_Operacional_change :: "app_state \<Rightarrow> app_state \<times> command list" where
  "on_Cadastro_Operacional_change s =
     and_then (if action s = ''Iniciar Puxe'' then loadNames s else (s, []))
       (\<lambda>s'. if action s = ''Finalizar Puxe'' then loadIdsFinalization s' else (s', []))"

text \<open>The template string \<^verbatim>\<open>`${action}-${selectedManifestoId}-${name}`\<close>.\<close>

definition submissionKey :: "string \<Rightarrow> string \<Rightarrow> string \<Rightarrow> string" where
  "submissionKey a i n = a @ ''-'' @ i @ ''-'' @ n"

text \<open>\<^verbatim>\<open>handleSubmit\<close> up to its \<^verbatim>\<open>setTimeout\<close>. Two messages carry an
  a with an acute accent (U+00E1), in \<^verbatim>\<open>valido\<close> and in \<^verbatim>\<open>ja\<close>.\<close>

definition handleSubmit :: "app_state \<Rightarrow> app_state \<times> command list" where
  "handleSubmit s0 =
     (let s = s0\<lparr>feedback := \<lparr>fb_text = [], fb_type = []\<rparr>\<rparr>
      in if action s = [] then (s, [])
         else if action s = ''Iniciar Puxe'' \<and> (name s = [] \<or> selectedManifestoId s = []) then
           (s\<lparr>feedback := \<lparr>fb_text = ''Preencha todos os campos.'', fb_type = ''error''\<rparr>\<rparr>, [])
         else if action s = ''Finalizar Puxe'' \<and> (name s = [] \<or> selectedManifestoId s = []) then
           (s\<lparr>feedback := \<lparr>fb_text = ''Preencha todos os campos.'', fb_type = ''error''\<rparr>\<rparr>, [])
         else if action s = ''Iniciar Puxe'' \<and> length (namesList s) > 0 \<and>
                 \<not> list_ex (\<lambda>n. toLowerCase n = toLowerCase (name s)) (namesList s) then
           (s\<lparr>feedback :=
                \<lparr>fb_text = ''Por favor, escolha um nome v'' @ [CHR 0xE1] @ ''lido da lista.'',
                 fb_type = ''error''\<rparr>\<rparr>, [])
         else if lastSubmission s =
                   Some (submissionKey (action s) (selectedManifestoId s) (name s)) then
           (s\<lparr>feedback :=
                \<lparr>fb_text = ''Este registro j'' @ [CHR 0xE1] @ '' foi enviado recentemente!'',
                 fb_type = ''error''\<rparr>\<rparr>, [])
         else
           (s\<lparr>loading := True, loadingMessage := ''Processando...''\<rparr>,
            [SetTimeout_submit 1500 (action s) (selectedManifestoId s) (name s)
               (submissionKey (action s) (selectedManifestoId s) (name s))]))"

text \<open>
  The callback of that timer, from the point where \<^verbatim>\<open>submitManifestoAction\<close> has
  returned \<open>res\<close>. The callback closes over the action, the manifest id, the name and the
  key of the render that set the timer; it writes into the state of the moment it runs.
\<close>

definition handleSubmit_timeout ::
  "string \<Rightarrow> string \<Rightarrow> string \<Rightarrow> string \<Rightarrow> submit_result \<Rightarrow> app_state \<Rightarrow>
     app_state \<times> command list" where
  "handleSubmit_timeout action0 selectedManifestoId0 name0 submissionKey0 res s0 =
     (let s = s0\<lparr>loading := False\<rparr>
      in if success res then
           (let s1 = s\<lparr>feedback := \<lparr>fb_text = message res, fb_type = ''success''\<rparr>,
                      lastSubmission := Some submissionKey0\<rparr>
            in and_then
                 (if action0 = ''Finalizar Puxe'' then
                    (s1\<lparr>manifestosForEmployee :=
                          filter (\<lambda>i. i \<noteq> Some selectedManifestoId0)
                            (manifestosForEmployee s1),
                        selectedManifestoId := []\<rparr>, [])
                  else loadIds (s1\<lparr>selectedManifestoId := [], name := []\<rparr>))
                 (\<lambda>s2. (s2, [SetTimeout_clearFeedback 3000])))
         else (s\<lparr>feedback := \<lparr>fb_text = message res, fb_type = ''error''\<rparr>\<rparr>, []))"

text \<open>
  Everything that writes the state of the component, as one transition function: the
  \<^verbatim>\<open>onChange\<close> callbacks of the three inputs of the start view and of the name input of
  the finish view, the click on a manifest button, the refresh and submit buttons, the two
  real-time handlers, the resumption of each suspended function with the value its call
  returned, and the three timers. The submit button is rendered with
  \<^verbatim>\<open>disabled={loading}\<close>, so a click while loading does nothing.
\<close>

datatype event =
    Select_action string
  | Set_name string
  | Name_change string
  | Select_manifesto string
  | Refresh_click
  | Submit_click
  | SMO_Sistema_changed
  | Cadastro_Operacional_changed
  | LoadNames_returned "string list"
  | LoadIds_returned "string list"
  | LoadIdsFinalization_returned "string list"
  | ManifestosForEmployee_returned "string option list"
  | Submit_returned string string string string submit_result
  | ClearFeedback_timeout
  | UpdatingOff_timeout

fun step :: "event \<Rightarrow> app_state \<Rightarrow> app_state \<times> command list" where
  "step (Select_action val) s = setAction val s"
| "step (Set_name val) s = (s\<lparr>name := val\<rparr>, [])"
| "step (Name_change val) s = handleNameChange val s"
| "step (Select_manifesto val) s = (s\<lparr>selectedManifestoId := val\<rparr>, [])"
| "step Refresh_click s = handleRefresh s"
| "step Submit_click s = (if loading s then (s, []) else handleSubmit s)"
| "step SMO_Sistema_changed s = on_SMO_Sistema_change s"
| "step Cadastro_Operacional_changed s = on_Cadastro_Operacional_change s"
| "step (LoadNames_returned names) s = loadNames_resumed names s"
| "step (LoadIds_returned ids) s = loadIds_resumed ids s"
| "step (LoadIdsFinalization_returned names) s = loadIdsFinalization_resumed names s"
| "step (ManifestosForEmployee_returned ms) s = (s\<lparr>manifestosForEmployee := ms\<rparr>, [])"
| "step (Submit_returned a i n k res) s = handleSubmit_timeout a i n k res s"
| "step ClearFeedback_timeout s = (s\<lparr>feedback := \<lparr>fb_text = [], fb_type = []\<rparr>\<rparr>, [])"
| "step UpdatingOff_timeout s = (s\<lparr>updating := False\<rparr>, [])"

text \<open>The submit timer fires: the component calls the write operation of
  \<^verbatim>\<open>src/services/api.ts\<close>, the module it imports, and the callback goes on with what
  the call returned.\<close>

definition submit_timer_fires ::
  "submit_env \<Rightarrow> database \<Rightarrow> command \<Rightarrow> app_state \<Rightarrow>
     (app_state \<times> command list) \<times> database" where
  "submit_timer_fires env db c s =
     (case c of
        SetTimeout_submit ms a i n k \<Rightarrow>
          (let sub = submitManifestoAction env a i n db
           in (step (Submit_returned a i n k (result sub)) s, store sub))
      | _ \<Rightarrow> ((s, []), db))"

text \<open>The state of a freshly mounted component.\<close>

definition initial_state :: app_state where
  "initial_state =
     \<lparr>action = [], name = [], selectedManifestoId = [], namesList = [], idsList = [],
      manifestosForEmployee = [], loading = False, loadingMessage = ''Processando...'',
      updating = False, feedback = \<lparr>fb_text = [], fb_type = []\<rparr>, lastSubmission = None\<rparr>"

section \<open>Predicates and example inputs used in the statements\<close>

text \<open>A request succeeds when it resolves with no error. An insert without
  \<^verbatim>\<open>.select()\<close> resolves with \<^verbatim>\<open>data\<close> null, so \<^term>\<open>NoData\<close> is a success too.\<close>

definition succeeds :: "fault \<Rightarrow> bool" where
  "succeeds f = (f = Works \<or> f = NoData)"

definition throws :: "fault \<Rightarrow> bool" where
  "throws f = (case f of Throws m \<Rightarrow> True | _ \<Rightarrow> False)"

text \<open>The row \<^verbatim>\<open>submitManifestoAction\<close> inserts.\<close>

definition new_row :: "submit_env \<Rightarrow> string \<Rightarrow> string \<Rightarrow> string \<Rightarrow> registro" where
  "new_row env a i n =
     \<lparr>manifesto_id = i, acao = a, nome = n, created_at = toISOString_now env\<rparr>"

text \<open>The body of the start webhook.\<close>

definition Iniciar_body :: "submit_env \<Rightarrow> string \<Rightarrow> string \<Rightarrow> (string \<times> string) list" where
  "Iniciar_body env i n =
     [(''id_manifesto'', i), (''nome'', n),
      (''Manifesto_Iniciado'', toLocaleString_ptBR_now env)]"

definition ex_env :: submit_env where
  "ex_env = \<lparr>insert_fault = NoData, update_fault = NoData, fetch_rejects = None,
     toISOString_now = ''2025-02-01T12:00:00.000Z'',
     toLocaleString_ptBR_now = ''01/02/2025, 09:00:00''\<rparr>"

definition row0 :: SMO_row where
  "row0 = \<lparr>ID_Manifesto = None, Status = None, Usuario_Operacao = None,
      Usuario_Operacao' = None, Usuario = None, CIA = None,
      Manifesto_Disponivel = None, Manifesto_Iniciado = None\<rparr>"

definition ex_db :: database where
  "ex_db = \<lparr>Cadastro_Operacional =
       [\<lparr>Cadastro_Usuario_Operacao' = Some ''Maria''\<rparr>,
        \<lparr>Cadastro_Usuario_Operacao' = Some ''Ana''\<rparr>,
        \<lparr>Cadastro_Usuario_Operacao' = None\<rparr>,
        \<lparr>Cadastro_Usuario_Operacao' = Some []\<rparr>,
        \<lparr>Cadastro_Usuario_Operacao' = Some ''Maria''\<rparr>],
     SMO_Sistema =
       [row0\<lparr>ID_Manifesto := Some ''X1'', Status := Some ''Manifesto Recebido'',
             CIA := Some ''LATAM''\<rparr>,
        row0\<lparr>ID_Manifesto := Some ''X2'', Status := Some ''Manifesto Recebido'',
             CIA := Some ''AZUL''\<rparr>,
        row0\<lparr>ID_Manifesto := Some ''X3'', Status := Some ''Manifesto Recebido''\<rparr>,
        row0\<lparr>ID_Manifesto := Some ''X4'', Status := Some ''Manifesto Recebido'',
             CIA := Some ''LATAM''\<rparr>],
     registros_operacionais = []\<rparr>"

text \<open>Four manifests of one employee: \<open>M2\<close> is marked started but its status is still
  received; \<open>M1\<close> (listed twice) is started by status and by marker; \<open>M3\<close> is started
  by status but carries no started marker.\<close>

definition ex_smo :: database where
  "ex_smo = \<lparr>Cadastro_Operacional = [],
     SMO_Sistema =
       [row0\<lparr>ID_Manifesto := Some ''M2'', Status := Some ''Manifesto Recebido'',
             Usuario_Operacao := Some ''Ana'',
             Manifesto_Iniciado := Some ''01/02/2025, 10:00:00''\<rparr>,
        row0\<lparr>ID_Manifesto := Some ''M1'', Status := Some ''Manifesto Iniciado'',
             Usuario_Operacao := Some ''Ana'',
             Manifesto_Iniciado := Some ''01/02/2025, 09:00:00''\<rparr>,
        row0\<lparr>ID_Manifesto := Some ''M1'', Status := Some ''Manifesto Iniciado'',
             Usuario_Operacao := Some ''Ana'',
             Manifesto_Iniciado := Some ''01/02/2025, 09:00:00''\<rparr>,
        row0\<lparr>ID_Manifesto := Some ''M3'', Status := Some ''Manifesto Iniciado'',
             Usuario_Operacao := Some ''Ana''\<rparr>],
     registros_operacionais = []\<rparr>"

text \<open>The outer \<^verbatim>\<open>catch\<close> block of \<^verbatim>\<open>submitManifestoAction\<close> runs when the insert throws,
  or when the insert resolves without error and the update, which is then attempted,
  throws.\<close>

definition submit_throws :: "submit_env \<Rightarrow> bool" where
  "submit_throws env =
     (throws (insert_fault env) \<or> (succeeds (insert_fault env) \<and> throws (update_fault env)))"

text \<open>The form passes the field checks of \<^verbatim>\<open>handleSubmit\<close>: an action is selected,
  name and manifest id are filled in, and for the start action the name list is empty or
  holds the name up to letter case.\<close>

definition fields_valid :: "app_state \<Rightarrow> bool" where
  "fields_valid s =
     ((action s = ''Iniciar Puxe'' \<or> action s = ''Finalizar Puxe'')
      \<and> name s \<noteq> [] \<and> selectedManifestoId s \<noteq> []
      \<and> (action s = ''Iniciar Puxe'' \<longrightarrow>
           namesList s = [] \<or> (\<exists>x \<in> set (namesList s). toLowerCase x = toLowerCase (name s))))"

definition error_feedback :: "string \<Rightarrow> FeedbackMessage" where
  "error_feedback t = \<lparr>fb_text = t, fb_type = ''error''\<rparr>"

text \<open>A form filled in for the start action, with the name list \<^verbatim>\<open>ana, BEN\<close>.\<close>

definition ex_form :: app_state where
  "ex_form = initial_state\<lparr>action := ''Iniciar Puxe'', name := ''Ana'',
     selectedManifestoId := ''X1'', namesList := [''ana'', ''BEN''],
     idsList := [''X1'', ''X2'']\<rparr>"

section \<open>Properties of the helpers\<close>

lemma set_Set_add_all: "set (Set_add_all seen xs) = set seen \<union> set xs"
  by (induction xs arbitrary: seen) auto

lemma distinct_Set_add_all: "distinct seen \<Longrightarrow> distinct (Set_add_all seen xs)"
  by (induction xs arbitrary: seen) auto

lemma set_Array_from_Set: "set (Array_from_Set xs) = set xs"
  by (simp add: Array_from_Set_def set_Set_add_all)

lemma distinct_Array_from_Set: "distinct (Array_from_Set xs)"
  by (simp add: Array_from_Set_def distinct_Set_add_all)

lemma set_filter_Boolean: "set (filter_Boolean xs) = {s. Some s \<in> set xs \<and> s \<noteq> []}"
  by (induction xs rule: filter_Boolean.induct) auto

lemma distinct_filter_Boolean: "distinct xs \<Longrightarrow> distinct (filter_Boolean xs)"
  by (induction xs rule: filter_Boolean.induct) (auto simp: set_filter_Boolean)

lemma fetchNames_Works:
  "fetchNames Works db status =
     sort (filter_Boolean (Array_from_Set (map Cadastro_Usuario_Operacao' (Cadastro_Operacional db))))"
  by (simp add: fetchNames_def supabase_select_def)

lemma fetchNames_status_ignored: "fetchNames f db status = fetchNames f db None"
  by (simp add: fetchNames_def)

section \<open>Reading the employee names\<close>

text \<open>
  Claim C7. When the read of \<^verbatim>\<open>Cadastro_Operacional\<close> works, \<^verbatim>\<open>fetchNames\<close> returns the
  values of the name column without NULL and empty values, without duplicates, sorted
  ascending by the comparison of strings: the result is sorted, has no duplicate, and its
  elements are exactly the non-empty names of the table. Rows \<^verbatim>\<open>Maria, Ana, Maria\<close>
  give \<^verbatim>\<open>Ana, Maria\<close>. Whatever the request does, the result with a status argument is
  the result with none.
\<close>

theorem fetchNames_dedup_sorted:
  "fetchNames Works db status =
     sort (filter_Boolean (Array_from_Set
       (map Cadastro_Usuario_Operacao' (Cadastro_Operacional db))))
   \<and> sorted (fetchNames Works db status)
   \<and> distinct (fetchNames Works db status)
   \<and> set (fetchNames Works db status) =
       {s. s \<noteq> [] \<and>
           (\<exists>r \<in> set (Cadastro_Operacional db). Cadastro_Usuario_Operacao' r = Some s)}
   \<and> fetchNames f db status = fetchNames f db None
   \<and> fetchNames Works
        \<lparr>Cadastro_Operacional =
           [\<lparr>Cadastro_Usuario_Operacao' = Some ''Maria''\<rparr>,
            \<lparr>Cadastro_Usuario_Operacao' = Some ''Ana''\<rparr>,
            \<lparr>Cadastro_Usuario_Operacao' = Some ''Maria''\<rparr>],
         SMO_Sistema = [], registros_operacionais = []\<rparr> status = [''Ana'', ''Maria'']"
proof -
  let ?col = "map Cadastro_Usuario_Operacao' (Cadastro_Operacional db)"
  have d: "distinct (filter_Boolean (Array_from_Set ?col))"
    by (rule distinct_filter_Boolean) (rule distinct_Array_from_Set)
  have s: "set (filter_Boolean (Array_from_Set ?col)) =
      {s. s \<noteq> [] \<and>
          (\<exists>r \<in> set (Cadastro_Operacional db). Cadastro_Usuario_Operacao' r = Some s)}"
    by (auto simp: set_filter_Boolean set_Array_from_Set intro: rev_image_eqI)
  have e: "fetchNames Works
        \<lparr>Cadastro_Operacional =
           [\<lparr>Cadastro_Usuario_Operacao' = Some ''Maria''\<rparr>,
            \<lparr>Cadastro_Usuario_Operacao' = Some ''Ana''\<rparr>,
            \<lparr>Cadastro_Usuario_Operacao' = Some ''Maria''\<rparr>],
         SMO_Sistema = [], registros_operacionais = []\<rparr> status = [''Ana'', ''Maria'']"
    by (simp add: fetchNames_Works Array_from_Set_def)
  show ?thesis
    using d s e by (simp add: fetchNames_Works fetchNames_status_ignored [of f db status])
qed

theorem fetchNames_dedup_sorted_witness:
  "fetchNames Works ex_db (Some ''Manifesto Iniciado'') = [''Ana'', ''Maria'']
   \<and> fetchNames Works ex_db None = [''Ana'', ''Maria'']
   \<and> fetchNames (Reports ''timeout'') ex_db (Some ''Manifesto Iniciado'') =
       fetchNames (Reports ''timeout'') ex_db None"
  using fetchNames_dedup_sorted [of ex_db "Some ''Manifesto Iniciado''" "Reports ''timeout''"]
    fetchNames_dedup_sorted [of ex_db None Works]
  by (simp add: ex_db_def Array_from_Set_def)

section \<open>Properties of the read operations\<close>

lemma fetchManifestosForEmployee_Works:
  "fetchManifestosForEmployee Works db n =
     map ID_Manifesto
       (filter (\<lambda>r. Usuario_Operacao r = Some n \<and> Status r = Some ''Manifesto Iniciado'')
          (SMO_Sistema db))"
  by (simp add: fetchManifestosForEmployee_def supabase_select_def pg_eq_def conj_commute)

lemma fetchManifestosForEmployee_not_Works:
  "f \<noteq> Works \<Longrightarrow> fetchManifestosForEmployee f db n = []"
  by (cases f) (simp_all add: fetchManifestosForEmployee_def supabase_select_def)

lemma fetchManifestosForEmployee_part_001_Works:
  "fetchManifestosForEmployee_part_001 Works db n =
     map ID_Manifesto
       (filter (\<lambda>r. Usuario_Operacao r = Some n \<and> Manifesto_Disponivel r = None
                     \<and> Manifesto_Iniciado r \<noteq> None) (SMO_Sistema db))"
  by (simp add: fetchManifestosForEmployee_part_001_def supabase_select_def
      pg_eq_def pg_is_null_def pg_not_is_null_def conj_commute conj_left_commute)

lemma fetchManifestosForEmployee_part_001_not_Works:
  "f \<noteq> Works \<Longrightarrow> fetchManifestosForEmployee_part_001 f db n = []"
  by (cases f) (simp_all add: fetchManifestosForEmployee_part_001_def supabase_select_def)

lemma fetchCIAs_Works:
  "fetchCIAs Works db =
     sort_key js_String (Array_from_Set (map CIA (pg_neq_null CIA (SMO_Sistema db))))"
  by (simp add: fetchCIAs_def supabase_select_def)

lemma fetchCIAs_Reports:
  "fetchCIAs (Reports m) db = [Some ''CIA A'', Some ''CIA B'', Some ''CIA C'']"
  by (simp add: fetchCIAs_def supabase_select_def)

lemma fetchCIAs_Throws: "fetchCIAs (Throws m) db = []"
  by (simp add: fetchCIAs_def supabase_select_def)

lemma set_fetchCIAs:
  "set (fetchCIAs Works db) = {c. c \<noteq> None \<and> c \<in> CIA ` set (SMO_Sistema db)}"
  by (auto simp: fetchCIAs_Works set_Array_from_Set pg_neq_null_def)

lemma distinct_fetchCIAs: "distinct (fetchCIAs Works db)"
  by (simp add: fetchCIAs_Works distinct_Array_from_Set)

lemma sorted_fetchCIAs: "sorted (map js_String (fetchCIAs Works db))"
  by (simp add: fetchCIAs_Works)

lemma js_String_inj: "inj_on js_String {c. c \<noteq> None}"
  by (auto simp: inj_on_def js_String_def split: option.splits)

text \<open>Two tables with the same company codes give the same list: a sorted list without
  duplicates is determined by its elements.\<close>

lemma fetchCIAs_set_determined:
  assumes "CIA ` set (SMO_Sistema db) = CIA ` set (SMO_Sistema db')"
  shows "fetchCIAs Works db = fetchCIAs Works db'"
proof -
  let ?a = "fetchCIAs Works db" and ?b = "fetchCIAs Works db'"
  have sa: "set ?a = set ?b"
    using assms by (simp add: set_fetchCIAs)
  have inj: "inj_on js_String (set ?a \<union> set ?b)"
    by (rule inj_on_subset [OF js_String_inj]) (auto simp: set_fetchCIAs)
  have da: "distinct (map js_String ?a)" and dbb: "distinct (map js_String ?b)"
    using inj by (auto simp: distinct_map distinct_fetchCIAs intro: inj_on_subset)
  have "map js_String ?a = map js_String ?b"
    by (rule sorted_distinct_set_unique) (simp_all add: sorted_fetchCIAs da dbb sa)
  then show ?thesis
    using inj by (rule map_inj_on)
qed

section \<open>Manifests of one employee\<close>

text \<open>
  Claim C8, as stated, fails on \<^verbatim>\<open>src/services/api.ts\<close> (and \<^verbatim>\<open>part_000\<close>), whose
  \<^verbatim>\<open>fetchManifestosForEmployee\<close> filters on the employee and on
  \<^verbatim>\<open>Status = 'Manifesto Iniciado'\<close> and never reads the two marker columns. On the
  table \<^term>\<open>ex_smo\<close>, manifest \<open>M2\<close> has the availability marker NULL and the started
  marker set, yet is not returned (its status is still received), and manifest \<open>M3\<close> is
  returned although its started marker is NULL.
\<close>

theorem fetchManifestosForEmployee_status_counterexample:
  "fetchManifestosForEmployee Works ex_smo ''Ana'' = [Some ''M1'', Some ''M1'', Some ''M3'']
   \<and> fetchManifestosForEmployee_part_001 Works ex_smo ''Ana'' =
       [Some ''M2'', Some ''M1'', Some ''M1'']"
  by (simp add: fetchManifestosForEmployee_Works fetchManifestosForEmployee_part_001_Works
      ex_smo_def row0_def)

text \<open>
  Claim C8, amended. In \<^verbatim>\<open>part_001\<close>, when the read works,
  \<^verbatim>\<open>fetchManifestosForEmployee\<close> returns, in table order and with repetitions, the id
  column of exactly the rows whose \<^verbatim>\<open>Usuario_Operacao\<close> is the given name, whose
  \<^verbatim>\<open>Manifesto_Disponivel\<close> is NULL and whose \<^verbatim>\<open>Manifesto_Iniciado\<close> is not NULL; the
  \<^verbatim>\<open>Status\<close> column has no influence on the result; on any other outcome of the request
  the result is empty. In \<^verbatim>\<open>src/services/api.ts\<close> and \<^verbatim>\<open>part_000\<close> the rows are
  those whose \<^verbatim>\<open>Usuario_Operacao\<close> is the given name and whose \<^verbatim>\<open>Status\<close> is
  \<^verbatim>\<open>'Manifesto Iniciado'\<close>, again raw, and empty on any other outcome.
\<close>

theorem fetchManifestosForEmployee_by_version:
  "fetchManifestosForEmployee_part_001 Works db n =
     map ID_Manifesto
       (filter (\<lambda>r. Usuario_Operacao r = Some n \<and> Manifesto_Disponivel r = None
                     \<and> Manifesto_Iniciado r \<noteq> None) (SMO_Sistema db))
   \<and> fetchManifestosForEmployee_part_001 Works
        (db\<lparr>SMO_Sistema := map (\<lambda>r. r\<lparr>Status := g r\<rparr>) (SMO_Sistema db)\<rparr>) n =
      fetchManifestosForEmployee_part_001 Works db n
   \<and> (f \<noteq> Works \<longrightarrow> fetchManifestosForEmployee_part_001 f db n = [])
   \<and> fetchManifestosForEmployee Works db n =
       map ID_Manifesto
         (filter (\<lambda>r. Usuario_Operacao r = Some n \<and> Status r = Some ''Manifesto Iniciado'')
            (SMO_Sistema db))
   \<and> (f \<noteq> Works \<longrightarrow> fetchManifestosForEmployee f db n = [])"
proof (intro conjI impI)
  show "fetchManifestosForEmployee_part_001 Works
        (db\<lparr>SMO_Sistema := map (\<lambda>r. r\<lparr>Status := g r\<rparr>) (SMO_Sistema db)\<rparr>) n =
      fetchManifestosForEmployee_part_001 Works db n"
    by (simp add: fetchManifestosForEmployee_part_001_Works filter_map comp_def)
qed (simp_all add: fetchManifestosForEmployee_part_001_Works fetchManifestosForEmployee_Works
      fetchManifestosForEmployee_part_001_not_Works fetchManifestosForEmployee_not_Works)

theorem fetchManifestosForEmployee_by_version_witness:
  "fetchManifestosForEmployee_part_001 Works ex_smo ''Ana'' =
     [Some ''M2'', Some ''M1'', Some ''M1'']
   \<and> fetchManifestosForEmployee_part_001 Works
        (ex_smo\<lparr>SMO_Sistema := map (\<lambda>r. r\<lparr>Status := Some ''Manifesto Finalizado''\<rparr>)
                                   (SMO_Sistema ex_smo)\<rparr>) ''Ana'' =
      [Some ''M2'', Some ''M1'', Some ''M1'']
   \<and> Reports ''timeout'' \<noteq> Works
   \<and> fetchManifestosForEmployee_part_001 (Reports ''timeout'') ex_smo ''Ana'' = []
   \<and> fetchManifestosForEmployee Works ex_smo ''Ana'' = [Some ''M1'', Some ''M1'', Some ''M3'']
   \<and> fetchManifestosForEmployee (Reports ''timeout'') ex_smo ''Ana'' = []"
  using fetchManifestosForEmployee_by_version
    [of ex_smo "''Ana''" "\<lambda>r. Some ''Manifesto Finalizado''" "Reports ''timeout''"]
  by (simp add: ex_smo_def row0_def)

section \<open>Company codes\<close>

text \<open>
  Claim C9, as stated, fails when the request throws: the \<^verbatim>\<open>catch\<close> block of
  \<^verbatim>\<open>fetchCIAs\<close> returns the empty list, not the three placeholder codes.
\<close>

theorem fetchCIAs_thrown_counterexample:
  "fetchCIAs (Throws ''Failed to fetch'') ex_db = []
   \<and> fetchCIAs (Throws ''Failed to fetch'') ex_db \<noteq>
       [Some ''CIA A'', Some ''CIA B'', Some ''CIA C'']"
  by (simp add: fetchCIAs_Throws)

text \<open>
  Claim C9, amended. When the read works, \<^verbatim>\<open>fetchCIAs\<close> returns the company codes that
  are not NULL, without duplicates, sorted ascending; the list depends only on the set of
  codes in the table, so calls on an unchanged table (or on any table with the same codes)
  return the same list. When the request reports an error the result is exactly the three
  placeholder codes. When the request throws the result is the empty list.
\<close>

theorem fetchCIAs_result:
  "sorted (map js_String (fetchCIAs Works db))
   \<and> distinct (fetchCIAs Works db)
   \<and> set (fetchCIAs Works db) = {c. c \<noteq> None \<and> c \<in> CIA ` set (SMO_Sistema db)}
   \<and> (CIA ` set (SMO_Sistema db) = CIA ` set (SMO_Sistema db') \<longrightarrow>
        fetchCIAs Works db = fetchCIAs Works db')
   \<and> fetchCIAs (Reports m) db = [Some ''CIA A'', Some ''CIA B'', Some ''CIA C'']
   \<and> fetchCIAs (Throws m) db = []"
proof (intro conjI impI)
  show "fetchCIAs Works db = fetchCIAs Works db'"
    if "CIA ` set (SMO_Sistema db) = CIA ` set (SMO_Sistema db')"
    using that by (rule fetchCIAs_set_determined)
qed (simp_all add: sorted_fetchCIAs distinct_fetchCIAs set_fetchCIAs fetchCIAs_Reports
      fetchCIAs_Throws)

theorem fetchCIAs_result_witness:
  "fetchCIAs Works ex_db = [Some ''AZUL'', Some ''LATAM'']
   \<and> CIA ` set (SMO_Sistema ex_db) =
       CIA ` set (SMO_Sistema (ex_db\<lparr>SMO_Sistema := rev (SMO_Sistema ex_db)\<rparr>))
   \<and> fetchCIAs Works (ex_db\<lparr>SMO_Sistema := rev (SMO_Sistema ex_db)\<rparr>) =
       [Some ''AZUL'', Some ''LATAM'']
   \<and> fetchCIAs (Reports ''permission denied'') ex_db =
       [Some ''CIA A'', Some ''CIA B'', Some ''CIA C'']
   \<and> fetchCIAs (Throws ''Failed to fetch'') ex_db = []"
proof -
  let ?db' = "ex_db\<lparr>SMO_Sistema := rev (SMO_Sistema ex_db)\<rparr>"
  note r = fetchCIAs_result [of ex_db ?db' "''permission denied''"]
  note t = fetchCIAs_result [of ex_db ?db' "''Failed to fetch''"]
  have v: "fetchCIAs Works ex_db = [Some ''AZUL'', Some ''LATAM'']"
    by (simp add: fetchCIAs_Works ex_db_def row0_def pg_neq_null_def Array_from_Set_def
        js_String_def)
  have h: "CIA ` set (SMO_Sistema ex_db) = CIA ` set (SMO_Sistema ?db')"
    by simp
  have e: "fetchCIAs Works ex_db = fetchCIAs Works ?db'"
    using r h by blast
  have rep: "fetchCIAs (Reports ''permission denied'') ex_db =
      [Some ''CIA A'', Some ''CIA B'', Some ''CIA C'']"
    using r by blast
  have thr: "fetchCIAs (Throws ''Failed to fetch'') ex_db = []"
    using t by blast
  show ?thesis
    using v h e rep thr by (intro conjI) (simp_all only:)
qed

section \<open>Properties of the write operation\<close>

lemma webhook_posts_append:
  "webhook_posts (xs @ ys) = webhook_posts xs @ webhook_posts ys"
  by (induction xs rule: webhook_posts.induct) simp_all

lemma status_updates_append:
  "status_updates (xs @ ys) = status_updates xs @ status_updates ys"
  by (induction xs rule: status_updates.induct) simp_all

lemma webhook_posts_try_fetch: "webhook_posts (try_fetch env u b) = [(u, b)]"
  by (simp add: try_fetch_def split: option.splits)

lemma status_updates_try_fetch: "status_updates (try_fetch env u b) = []"
  by (simp add: try_fetch_def split: option.splits)

lemma return_message_sel:
  "success (result (return_message a db cs))"
  "store (return_message a db cs) = db"
  "calls (return_message a db cs) = cs"
  by (simp_all add: return_message_def)

lemma return_message_Manifesto_sel:
  "success (result (return_message_Manifesto a db cs))"
  "store (return_message_Manifesto a db cs) = db"
  "calls (return_message_Manifesto a db cs) = cs"
  by (simp_all add: return_message_Manifesto_def)

lemma catch_error_sel:
  "\<not> success (result (catch_error m db cs))"
  "message (result (catch_error m db cs)) = ''Erro ao processar: '' @ m"
  "store (catch_error m db cs) = db"
  "calls (catch_error m db cs) = cs"
  by (simp_all add: catch_error_def)

text \<open>The code after the \<^verbatim>\<open>if (!error)\<close> block, by version: what it adds to the calls
  and what it returns.\<close>

lemma webhook_and_message_part_000_sel:
  "success (result (webhook_and_message_part_000 env a i n db cs))"
  "store (webhook_and_message_part_000 env a i n db cs) = db"
  "calls (webhook_and_message_part_000 env a i n db cs) =
     cs @ (if a = ''Iniciar Manifesto''
           then try_fetch env Iniciar_Manifesto_url (Iniciar_body env i n) else [])"
  "result (webhook_and_message_part_000 env a i n db cs) =
     result (return_message_Manifesto a db [])"
  by (simp_all add: webhook_and_message_part_000_def return_message_Manifesto_def
      Iniciar_body_def)

lemma webhook_and_message_part_001_sel:
  "success (result (webhook_and_message_part_001 env a i n db cs))"
  "store (webhook_and_message_part_001 env a i n db cs) = db"
  "calls (webhook_and_message_part_001 env a i n db cs) =
     cs @ (if a = ''Iniciar Manifesto''
           then try_fetch env Iniciar_Manifesto_url (Iniciar_body env i n)
           else if a = ''Finalizar Manifesto''
           then try_fetch env Manifesto_Operacional_url
                  [(''id_manifesto'', i), (''nome'', n),
                   (''Manifesto_Finalizado'', toLocaleString_ptBR_now env)]
           else [])"
  "result (webhook_and_message_part_001 env a i n db cs) =
     result (return_message_Manifesto a db [])"
  by (simp_all add: webhook_and_message_part_001_def return_message_Manifesto_def
      Iniciar_body_def)

text \<open>The five paths through \<^verbatim>\<open>submitManifestoAction\<close>, the same in the three versions
  up to the start label and the code after the \<^verbatim>\<open>if (!error)\<close> block.\<close>

lemma submit_insert_Throws:
  assumes "insert_fault env = Throws m"
  shows "submitManifestoAction env a i n db =
           catch_error m db [Insert_registros (new_row env a i n)]"
    and "submitManifestoAction_part_000 env a i n db =
           catch_error m db [Insert_registros (new_row env a i n)]"
    and "submitManifestoAction_part_001 env a i n db =
           catch_error m db [Insert_registros (new_row env a i n)]"
  using assms
  by (simp_all add: submitManifestoAction_def submitManifestoAction_part_000_def
      submitManifestoAction_part_001_def supabase_insert_def new_row_def)

lemma submit_insert_Reports:
  assumes "insert_fault env = Reports m"
  shows "submitManifestoAction env a i n db =
           return_message a db [Insert_registros (new_row env a i n)]"
    and "submitManifestoAction_part_000 env a i n db =
           webhook_and_message_part_000 env a i n db [Insert_registros (new_row env a i n)]"
    and "submitManifestoAction_part_001 env a i n db =
           webhook_and_message_part_001 env a i n db [Insert_registros (new_row env a i n)]"
  using assms
  by (simp_all add: submitManifestoAction_def submitManifestoAction_part_000_def
      submitManifestoAction_part_001_def supabase_insert_def new_row_def)

lemma submit_update_Throws:
  assumes "succeeds (insert_fault env)" and "update_fault env = Throws m"
  shows "submitManifestoAction env a i n db =
           catch_error m (insert_row (new_row env a i n) db)
             [Insert_registros (new_row env a i n), Update_SMO (if a = ''Iniciar Puxe'' then ''Manifesto Iniciado'' else ''Manifesto Finalizado'') n i]"
    and "submitManifestoAction_part_000 env a i n db =
           catch_error m (insert_row (new_row env a i n) db)
             [Insert_registros (new_row env a i n), Update_SMO (if a = ''Iniciar Manifesto'' then ''Manifesto Iniciado'' else ''Manifesto Finalizado'') n i]"
    and "submitManifestoAction_part_001 env a i n db =
           catch_error m (insert_row (new_row env a i n) db)
             [Insert_registros (new_row env a i n), Update_SMO (if a = ''Iniciar Manifesto'' then ''Manifesto Iniciado'' else ''Manifesto Finalizado'') n i]"
  using assms
  by (auto simp: succeeds_def submitManifestoAction_def submitManifestoAction_part_000_def
      submitManifestoAction_part_001_def supabase_insert_def supabase_update_def new_row_def
      Let_def)

lemma submit_update_Reports:
  assumes "succeeds (insert_fault env)" and "update_fault env = Reports m"
  shows "submitManifestoAction env a i n db =
           return_message a (insert_row (new_row env a i n) db)
             [Insert_registros (new_row env a i n), Update_SMO (if a = ''Iniciar Puxe'' then ''Manifesto Iniciado'' else ''Manifesto Finalizado'') n i]"
    and "submitManifestoAction_part_000 env a i n db =
           webhook_and_message_part_000 env a i n (insert_row (new_row env a i n) db)
             [Insert_registros (new_row env a i n), Update_SMO (if a = ''Iniciar Manifesto'' then ''Manifesto Iniciado'' else ''Manifesto Finalizado'') n i]"
    and "submitManifestoAction_part_001 env a i n db =
           webhook_and_message_part_001 env a i n (insert_row (new_row env a i n) db)
             [Insert_registros (new_row env a i n), Update_SMO (if a = ''Iniciar Manifesto'' then ''Manifesto Iniciado'' else ''Manifesto Finalizado'') n i]"
  using assms
  by (auto simp: succeeds_def submitManifestoAction_def submitManifestoAction_part_000_def
      submitManifestoAction_part_001_def supabase_insert_def supabase_update_def new_row_def
      Let_def)

lemma submit_update_succeeds:
  assumes "succeeds (insert_fault env)" and "succeeds (update_fault env)"
  shows "submitManifestoAction env a i n db =
           return_message a
             (update_rows (if a = ''Iniciar Puxe'' then ''Manifesto Iniciado'' else ''Manifesto Finalizado'') n i (insert_row (new_row env a i n) db))
             [Insert_registros (new_row env a i n), Update_SMO (if a = ''Iniciar Puxe'' then ''Manifesto Iniciado'' else ''Manifesto Finalizado'') n i]"
    and "submitManifestoAction_part_000 env a i n db =
           webhook_and_message_part_000 env a i n
             (update_rows (if a = ''Iniciar Manifesto'' then ''Manifesto Iniciado'' else ''Manifesto Finalizado'') n i (insert_row (new_row env a i n) db))
             [Insert_registros (new_row env a i n), Update_SMO (if a = ''Iniciar Manifesto'' then ''Manifesto Iniciado'' else ''Manifesto Finalizado'') n i]"
    and "submitManifestoAction_part_001 env a i n db =
           webhook_and_message_part_001 env a i n
             (update_rows (if a = ''Iniciar Manifesto'' then ''Manifesto Iniciado'' else ''Manifesto Finalizado'') n i (insert_row (new_row env a i n) db))
             [Insert_registros (new_row env a i n), Update_SMO (if a = ''Iniciar Manifesto'' then ''Manifesto Iniciado'' else ''Manifesto Finalizado'') n i]"
  using assms
  by (auto simp: succeeds_def submitManifestoAction_def submitManifestoAction_part_000_def
      submitManifestoAction_part_001_def supabase_insert_def supabase_update_def new_row_def
      Let_def)

lemma fault_cases:
  obtains "succeeds f" | m where "f = Reports m" | m where "f = Throws m"
  by (cases f) (auto simp: succeeds_def)

lemmas submit_paths =
  submit_insert_Throws submit_insert_Reports submit_update_Throws submit_update_Reports
  submit_update_succeeds

lemmas submit_sels =
  catch_error_sel return_message_sel return_message_Manifesto_sel
  webhook_and_message_part_000_sel webhook_and_message_part_001_sel

lemma submit_calls_prefix:
  assumes "succeeds (insert_fault env)"
  shows "take 2 (calls (submitManifestoAction env a i n db)) =
           [Insert_registros (new_row env a i n), Update_SMO (if a = ''Iniciar Puxe'' then ''Manifesto Iniciado'' else ''Manifesto Finalizado'') n i]"
    and "take 2 (calls (submitManifestoAction_part_000 env a i n db)) =
           [Insert_registros (new_row env a i n), Update_SMO (if a = ''Iniciar Manifesto'' then ''Manifesto Iniciado'' else ''Manifesto Finalizado'') n i]"
    and "take 2 (calls (submitManifestoAction_part_001 env a i n db)) =
           [Insert_registros (new_row env a i n), Update_SMO (if a = ''Iniciar Manifesto'' then ''Manifesto Iniciado'' else ''Manifesto Finalizado'') n i]"
  using assms
  by (cases "update_fault env" rule: fault_cases; simp add: submit_paths submit_sels)+

lemma submit_status_updates:
  assumes "succeeds (insert_fault env)"
  shows "status_updates (calls (submitManifestoAction env a i n db)) =
           [((if a = ''Iniciar Puxe'' then ''Manifesto Iniciado'' else ''Manifesto Finalizado''), n, i)]"
    and "status_updates (calls (submitManifestoAction_part_000 env a i n db)) =
           [((if a = ''Iniciar Manifesto'' then ''Manifesto Iniciado'' else ''Manifesto Finalizado''), n, i)]"
    and "status_updates (calls (submitManifestoAction_part_001 env a i n db)) =
           [((if a = ''Iniciar Manifesto'' then ''Manifesto Iniciado'' else ''Manifesto Finalizado''), n, i)]"
  using assms
  by (cases "update_fault env" rule: fault_cases;
      simp add: submit_paths submit_sels status_updates_append status_updates_try_fetch)+

lemma result_return_message:
  "result (return_message a db cs) =
     \<lparr>success = True,
      message = (if a = ''Iniciar Puxe'' then ''Puxe registrado com sucesso!''
                 else if a = ''Finalizar Puxe''
                 then ''Obrigado, puxe conclu'' @ [CHR 0xED] @ ''do!''
                 else ''Registro salvo com sucesso!'')\<rparr>"
  by (simp add: return_message_def)

lemma result_return_message_Manifesto:
  "result (return_message_Manifesto a db cs) =
     \<lparr>success = True,
      message = (if a = ''Iniciar Manifesto'' then ''Manifesto iniciado com sucesso!''
                 else if a = ''Finalizar Manifesto'' then ''Manifesto finalizado com sucesso!''
                 else ''Registro salvo com sucesso!'')\<rparr>"
  by (simp add: return_message_Manifesto_def)

lemma submit_throws_cases:
  obtains
    (insert_throws) m where "insert_fault env = Throws m" "submit_throws env"
  | (insert_reports) m where "insert_fault env = Reports m" "\<not> submit_throws env"
  | (update_throws) m where "succeeds (insert_fault env)" "update_fault env = Throws m"
      "submit_throws env"
  | (update_reports) m where "succeeds (insert_fault env)" "update_fault env = Reports m"
      "\<not> submit_throws env"
  | (both_succeed) "succeeds (insert_fault env)" "succeeds (update_fault env)"
      "\<not> submit_throws env"
proof (cases "insert_fault env" rule: fault_cases)
  case 1
  then show ?thesis
    by (cases "update_fault env" rule: fault_cases)
      (auto simp: submit_throws_def throws_def succeeds_def intro: that)
qed (auto simp: submit_throws_def throws_def succeeds_def intro: that)

lemma submit_result:
  "(\<not> submit_throws env \<longrightarrow>
      result (submitManifestoAction env a i n db) = result (return_message a db [])
    \<and> result (submitManifestoAction_part_000 env a i n db) =
        result (return_message_Manifesto a db [])
    \<and> result (submitManifestoAction_part_001 env a i n db) =
        result (return_message_Manifesto a db []))
   \<and> (success (result (submitManifestoAction env a i n db)) \<longleftrightarrow> \<not> submit_throws env)
   \<and> (success (result (submitManifestoAction_part_000 env a i n db)) \<longleftrightarrow>
        \<not> submit_throws env)
   \<and> (success (result (submitManifestoAction_part_001 env a i n db)) \<longleftrightarrow>
        \<not> submit_throws env)"
proof (cases env rule: submit_throws_cases)
  case (insert_throws m)
  then show ?thesis
    by (simp add: submit_insert_Throws submit_sels
        result_return_message result_return_message_Manifesto)
next
  case (insert_reports m)
  then show ?thesis
    by (simp add: submit_insert_Reports submit_sels
        result_return_message result_return_message_Manifesto)
next
  case (update_throws m)
  then show ?thesis
    by (simp add: submit_update_Throws submit_sels
        result_return_message result_return_message_Manifesto)
next
  case (update_reports m)
  then show ?thesis
    by (simp add: submit_update_Reports submit_sels
        result_return_message result_return_message_Manifesto)
next
  case both_succeed
  then show ?thesis
    by (simp add: submit_update_succeeds submit_sels
        result_return_message result_return_message_Manifesto)
qed

lemma submit_webhook_posts:
  "webhook_posts (calls (submitManifestoAction env a i n db)) = []
   \<and> webhook_posts (calls (submitManifestoAction_part_000 env a i n db)) =
       (if \<not> submit_throws env \<and> a = ''Iniciar Manifesto''
        then [(Iniciar_Manifesto_url, Iniciar_body env i n)] else [])
   \<and> webhook_posts (calls (submitManifestoAction_part_001 env a i n db)) =
       (if submit_throws env then []
        else if a = ''Iniciar Manifesto''
        then [(Iniciar_Manifesto_url, Iniciar_body env i n)]
        else if a = ''Finalizar Manifesto''
        then [(Manifesto_Operacional_url,
               [(''id_manifesto'', i), (''nome'', n),
                (''Manifesto_Finalizado'', toLocaleString_ptBR_now env)])]
        else [])"
proof (cases env rule: submit_throws_cases)
  case (insert_throws m)
  then show ?thesis
    by (simp add: submit_insert_Throws submit_sels
        webhook_posts_append webhook_posts_try_fetch)
next
  case (insert_reports m)
  then show ?thesis
    by (simp add: submit_insert_Reports submit_sels
        webhook_posts_append webhook_posts_try_fetch)
next
  case (update_throws m)
  then show ?thesis
    by (simp add: submit_update_Throws submit_sels
        webhook_posts_append webhook_posts_try_fetch)
next
  case (update_reports m)
  then show ?thesis
    by (simp add: submit_update_Reports submit_sels
        webhook_posts_append webhook_posts_try_fetch)
next
  case both_succeed
  then show ?thesis
    by (simp add: submit_update_succeeds submit_sels
        webhook_posts_append webhook_posts_try_fetch)
qed

lemma submit_last_call:
  "\<not> submit_throws env \<longrightarrow>
     last (calls (submitManifestoAction_part_000 env ''Iniciar Manifesto'' i n db)) =
       last (try_fetch env Iniciar_Manifesto_url (Iniciar_body env i n))
   \<and> last (calls (submitManifestoAction_part_001 env ''Iniciar Manifesto'' i n db)) =
       last (try_fetch env Iniciar_Manifesto_url (Iniciar_body env i n))"
proof (cases env rule: submit_throws_cases)
  case (insert_throws m)
  then show ?thesis by simp
next
  case (insert_reports m)
  then show ?thesis
    by (simp add: submit_insert_Reports submit_sels try_fetch_def)
next
  case (update_throws m)
  then show ?thesis by simp
next
  case (update_reports m)
  then show ?thesis
    by (simp add: submit_update_Reports submit_sels try_fetch_def)
next
  case both_succeed
  then show ?thesis
    by (simp add: submit_update_succeeds submit_sels try_fetch_def)
qed

lemma submit_fetch_independent:
  "result (submitManifestoAction_part_000 (env\<lparr>fetch_rejects := w\<rparr>) a i n db) =
     result (submitManifestoAction_part_000 env a i n db)
   \<and> store (submitManifestoAction_part_000 (env\<lparr>fetch_rejects := w\<rparr>) a i n db) =
     store (submitManifestoAction_part_000 env a i n db)
   \<and> result (submitManifestoAction_part_001 (env\<lparr>fetch_rejects := w\<rparr>) a i n db) =
     result (submitManifestoAction_part_001 env a i n db)
   \<and> store (submitManifestoAction_part_001 (env\<lparr>fetch_rejects := w\<rparr>) a i n db) =
     store (submitManifestoAction_part_001 env a i n db)
   \<and> submitManifestoAction (env\<lparr>fetch_rejects := w\<rparr>) a i n db =
     submitManifestoAction env a i n db"
proof (cases env rule: submit_throws_cases)
  case (insert_throws m)
  then show ?thesis
    by (simp add: submit_insert_Throws submit_sels new_row_def)
next
  case (insert_reports m)
  then show ?thesis
    by (simp add: submit_insert_Reports submit_sels new_row_def)
next
  case (update_throws m)
  then show ?thesis
    by (simp add: submit_update_Throws submit_sels new_row_def)
next
  case (update_reports m)
  then show ?thesis
    by (simp add: submit_update_Reports submit_sels new_row_def)
next
  case both_succeed
  then show ?thesis
    by (simp add: submit_update_succeeds submit_sels new_row_def)
qed

section \<open>Failure of the log insert\<close>

text \<open>
  Claim C1 says that a failed insert into \<^verbatim>\<open>registros_operacionais\<close> makes
  \<^verbatim>\<open>submitManifestoAction\<close> return \<^verbatim>\<open>success: false\<close> with a message that starts with
  \<^verbatim>\<open>Erro ao processar: \<close>, and that no status update and no webhook request follow.
  The code does so when the insert throws. When the insert resolves with a reported error
  (the \<^verbatim>\<open>error\<close> field of the response, the way the client library reports a failure),
  the three versions skip the status update and then fall through to the success
  messages: the result is a success, and \<^verbatim>\<open>part_000\<close> and \<^verbatim>\<open>part_001\<close> still post
  the start webhook.
\<close>

theorem submitManifestoAction_insert_failure:
  "(insert_fault env = Throws m \<longrightarrow>
      result (submitManifestoAction env a i n db) =
        \<lparr>success = False, message = ''Erro ao processar: '' @ m\<rparr>
    \<and> result (submitManifestoAction_part_000 env a i n db) =
        \<lparr>success = False, message = ''Erro ao processar: '' @ m\<rparr>
    \<and> result (submitManifestoAction_part_001 env a i n db) =
        \<lparr>success = False, message = ''Erro ao processar: '' @ m\<rparr>
    \<and> calls (submitManifestoAction env a i n db) = [Insert_registros (new_row env a i n)]
    \<and> calls (submitManifestoAction_part_000 env a i n db) =
        [Insert_registros (new_row env a i n)]
    \<and> calls (submitManifestoAction_part_001 env a i n db) =
        [Insert_registros (new_row env a i n)])
   \<and> (insert_fault env = Reports m \<longrightarrow>
      success (result (submitManifestoAction env a i n db))
    \<and> success (result (submitManifestoAction_part_000 env a i n db))
    \<and> success (result (submitManifestoAction_part_001 env a i n db))
    \<and> calls (submitManifestoAction env a i n db) = [Insert_registros (new_row env a i n)]
    \<and> status_updates (calls (submitManifestoAction_part_000 env a i n db)) = []
    \<and> status_updates (calls (submitManifestoAction_part_001 env a i n db)) = []
    \<and> webhook_posts (calls (submitManifestoAction_part_000 env ''Iniciar Manifesto'' i n db)) =
        [(Iniciar_Manifesto_url,
          [(''id_manifesto'', i), (''nome'', n),
           (''Manifesto_Iniciado'', toLocaleString_ptBR_now env)])]
    \<and> webhook_posts (calls (submitManifestoAction_part_001 env ''Iniciar Manifesto'' i n db)) =
        [(Iniciar_Manifesto_url,
          [(''id_manifesto'', i), (''nome'', n),
           (''Manifesto_Iniciado'', toLocaleString_ptBR_now env)])])"
proof (intro conjI impI)
  assume t: "insert_fault env = Throws m"
  show "result (submitManifestoAction env a i n db) =
        \<lparr>success = False, message = ''Erro ao processar: '' @ m\<rparr>"
    and "result (submitManifestoAction_part_000 env a i n db) =
        \<lparr>success = False, message = ''Erro ao processar: '' @ m\<rparr>"
    and "result (submitManifestoAction_part_001 env a i n db) =
        \<lparr>success = False, message = ''Erro ao processar: '' @ m\<rparr>"
    and "calls (submitManifestoAction env a i n db) = [Insert_registros (new_row env a i n)]"
    and "calls (submitManifestoAction_part_000 env a i n db) =
        [Insert_registros (new_row env a i n)]"
    and "calls (submitManifestoAction_part_001 env a i n db) =
        [Insert_registros (new_row env a i n)]"
    using t by (simp_all add: submit_insert_Throws catch_error_def)
next
  assume r: "insert_fault env = Reports m"
  show "success (result (submitManifestoAction env a i n db))"
    and "success (result (submitManifestoAction_part_000 env a i n db))"
    and "success (result (submitManifestoAction_part_001 env a i n db))"
    and "calls (submitManifestoAction env a i n db) = [Insert_registros (new_row env a i n)]"
    and "status_updates (calls (submitManifestoAction_part_000 env a i n db)) = []"
    and "status_updates (calls (submitManifestoAction_part_001 env a i n db)) = []"
    using r by (simp_all add: submit_insert_Reports submit_sels status_updates_try_fetch)
  show "webhook_posts (calls (submitManifestoAction_part_000 env ''Iniciar Manifesto'' i n db)) =
        [(Iniciar_Manifesto_url,
          [(''id_manifesto'', i), (''nome'', n),
           (''Manifesto_Iniciado'', toLocaleString_ptBR_now env)])]"
    and "webhook_posts (calls (submitManifestoAction_part_001 env ''Iniciar Manifesto'' i n db)) =
        [(Iniciar_Manifesto_url,
          [(''id_manifesto'', i), (''nome'', n),
           (''Manifesto_Iniciado'', toLocaleString_ptBR_now env)])]"
    using r by (simp_all add: submit_insert_Reports submit_sels webhook_posts_try_fetch
        Iniciar_body_def)
qed

theorem submitManifestoAction_insert_failure_witness:
  "insert_fault (ex_env\<lparr>insert_fault := Reports ''permission denied''\<rparr>) =
     Reports ''permission denied''
   \<and> result (submitManifestoAction (ex_env\<lparr>insert_fault := Reports ''permission denied''\<rparr>)
        ''Iniciar Puxe'' ''X1'' ''Joao'' ex_db) =
       \<lparr>success = True, message = ''Puxe registrado com sucesso!''\<rparr>
   \<and> result (submitManifestoAction_part_001
        (ex_env\<lparr>insert_fault := Reports ''permission denied''\<rparr>)
        ''Iniciar Manifesto'' ''X1'' ''Joao'' ex_db) =
       \<lparr>success = True, message = ''Manifesto iniciado com sucesso!''\<rparr>
   \<and> calls (submitManifestoAction_part_001
        (ex_env\<lparr>insert_fault := Reports ''permission denied''\<rparr>)
        ''Iniciar Manifesto'' ''X1'' ''Joao'' ex_db) =
       [Insert_registros
          \<lparr>manifesto_id = ''X1'', acao = ''Iniciar Manifesto'', nome = ''Joao'',
           created_at = ''2025-02-01T12:00:00.000Z''\<rparr>,
        POST ''https://projeto-teste-n8n.ly7t0m.easypanel.host/webhook/Iniciar-Manifesto''
          [(''id_manifesto'', ''X1''), (''nome'', ''Joao''),
           (''Manifesto_Iniciado'', ''01/02/2025, 09:00:00'')]]
   \<and> store (submitManifestoAction_part_001
        (ex_env\<lparr>insert_fault := Reports ''permission denied''\<rparr>)
        ''Iniciar Manifesto'' ''X1'' ''Joao'' ex_db) = ex_db
   \<and> insert_fault (ex_env\<lparr>insert_fault := Throws ''Failed to fetch''\<rparr>) =
       Throws ''Failed to fetch''
   \<and> submitManifestoAction_part_001 (ex_env\<lparr>insert_fault := Throws ''Failed to fetch''\<rparr>)
        ''Iniciar Manifesto'' ''X1'' ''Joao'' ex_db =
       \<lparr>result = \<lparr>success = False, message = ''Erro ao processar: Failed to fetch''\<rparr>,
        store = ex_db,
        calls = [Insert_registros
          \<lparr>manifesto_id = ''X1'', acao = ''Iniciar Manifesto'', nome = ''Joao'',
           created_at = ''2025-02-01T12:00:00.000Z''\<rparr>]\<rparr>"
  using submitManifestoAction_insert_failure
    [of "ex_env\<lparr>insert_fault := Reports ''permission denied''\<rparr>" "''permission denied''"
      "''Iniciar Puxe''" "''X1''" "''Joao''" ex_db]
  by (simp add: ex_env_def submitManifestoAction_def submitManifestoAction_part_001_def
      supabase_insert_def return_message_def webhook_and_message_part_001_def
      return_message_Manifesto_def try_fetch_def catch_error_def Iniciar_Manifesto_url_def)

lemma SMO_Sistema_update_rows:
  "SMO_Sistema (update_rows st n i (insert_row row db)) =
     map (\<lambda>r. if ID_Manifesto r = Some i
              then r\<lparr>Status := Some st, Usuario_Operacao := Some n\<rparr> else r)
         (SMO_Sistema db)"
  by (simp add: update_rows_def insert_row_def)

section \<open>The status update\<close>

text \<open>
  Claim C2. When the insert into \<^verbatim>\<open>registros_operacionais\<close> succeeds, the second request
  of \<^verbatim>\<open>submitManifestoAction\<close>, right after the insert, is the update of
  \<^verbatim>\<open>SMO_Sistema\<close> restricted to \<^verbatim>\<open>ID_Manifesto\<close> equal to the given id, and it is the
  only update; it sets \<^verbatim>\<open>Status\<close> to \<^verbatim>\<open>Manifesto Iniciado\<close> when the action is the start
  label of the version (\<^verbatim>\<open>Iniciar Puxe\<close> in \<^verbatim>\<open>src/services/api.ts\<close>,
  \<^verbatim>\<open>Iniciar Manifesto\<close> in \<^verbatim>\<open>part_000\<close> and \<^verbatim>\<open>part_001\<close>) and to
  \<^verbatim>\<open>Manifesto Finalizado\<close> for every other action, and \<^verbatim>\<open>Usuario_Operacao\<close> to the
  given name. When the update succeeds too, the rows of the table with that id carry the
  new status and the name, and every other row is as before.
\<close>

theorem submitManifestoAction_status_update:
  "succeeds (insert_fault env) \<longrightarrow>
     take 2 (calls (submitManifestoAction env a i n db)) =
       [Insert_registros (new_row env a i n),
        Update_SMO (if a = ''Iniciar Puxe'' then ''Manifesto Iniciado''
                    else ''Manifesto Finalizado'') n i]
   \<and> status_updates (calls (submitManifestoAction env a i n db)) =
       [(if a = ''Iniciar Puxe'' then ''Manifesto Iniciado'' else ''Manifesto Finalizado'', n, i)]
   \<and> take 2 (calls (submitManifestoAction_part_000 env a i n db)) =
       [Insert_registros (new_row env a i n),
        Update_SMO (if a = ''Iniciar Manifesto'' then ''Manifesto Iniciado''
                    else ''Manifesto Finalizado'') n i]
   \<and> status_updates (calls (submitManifestoAction_part_000 env a i n db)) =
       [(if a = ''Iniciar Manifesto'' then ''Manifesto Iniciado''
         else ''Manifesto Finalizado'', n, i)]
   \<and> take 2 (calls (submitManifestoAction_part_001 env a i n db)) =
       [Insert_registros (new_row env a i n),
        Update_SMO (if a = ''Iniciar Manifesto'' then ''Manifesto Iniciado''
                    else ''Manifesto Finalizado'') n i]
   \<and> status_updates (calls (submitManifestoAction_part_001 env a i n db)) =
       [(if a = ''Iniciar Manifesto'' then ''Manifesto Iniciado''
         else ''Manifesto Finalizado'', n, i)]
   \<and> (succeeds (update_fault env) \<longrightarrow>
        SMO_Sistema (store (submitManifestoAction env a i n db)) =
          map (\<lambda>r. if ID_Manifesto r = Some i
                   then r\<lparr>Status := Some (if a = ''Iniciar Puxe'' then ''Manifesto Iniciado''
                                           else ''Manifesto Finalizado''),
                          Usuario_Operacao := Some n\<rparr>
                   else r) (SMO_Sistema db)
      \<and> SMO_Sistema (store (submitManifestoAction_part_000 env a i n db)) =
          map (\<lambda>r. if ID_Manifesto r = Some i
                   then r\<lparr>Status := Some (if a = ''Iniciar Manifesto''
                                           then ''Manifesto Iniciado''
                                           else ''Manifesto Finalizado''),
                          Usuario_Operacao := Some n\<rparr>
                   else r) (SMO_Sistema db)
      \<and> SMO_Sistema (store (submitManifestoAction_part_001 env a i n db)) =
          map (\<lambda>r. if ID_Manifesto r = Some i
                   then r\<lparr>Status := Some (if a = ''Iniciar Manifesto''
                                           then ''Manifesto Iniciado''
                                           else ''Manifesto Finalizado''),
                          Usuario_Operacao := Some n\<rparr>
                   else r) (SMO_Sistema db))"
proof (intro impI)
  assume ins: "succeeds (insert_fault env)"
  have st: "succeeds (update_fault env) \<longrightarrow>
        SMO_Sistema (store (submitManifestoAction env a i n db)) =
          map (\<lambda>r. if ID_Manifesto r = Some i
                   then r\<lparr>Status := Some (if a = ''Iniciar Puxe'' then ''Manifesto Iniciado''
                                           else ''Manifesto Finalizado''),
                          Usuario_Operacao := Some n\<rparr>
                   else r) (SMO_Sistema db)
      \<and> SMO_Sistema (store (submitManifestoAction_part_000 env a i n db)) =
          map (\<lambda>r. if ID_Manifesto r = Some i
                   then r\<lparr>Status := Some (if a = ''Iniciar Manifesto''
                                           then ''Manifesto Iniciado''
                                           else ''Manifesto Finalizado''),
                          Usuario_Operacao := Some n\<rparr>
                   else r) (SMO_Sistema db)
      \<and> SMO_Sistema (store (submitManifestoAction_part_001 env a i n db)) =
          map (\<lambda>r. if ID_Manifesto r = Some i
                   then r\<lparr>Status := Some (if a = ''Iniciar Manifesto''
                                           then ''Manifesto Iniciado''
                                           else ''Manifesto Finalizado''),
                          Usuario_Operacao := Some n\<rparr>
                   else r) (SMO_Sistema db)"
  proof
    assume upd: "succeeds (update_fault env)"
    show "SMO_Sistema (store (submitManifestoAction env a i n db)) =
          map (\<lambda>r. if ID_Manifesto r = Some i
                   then r\<lparr>Status := Some (if a = ''Iniciar Puxe'' then ''Manifesto Iniciado''
                                           else ''Manifesto Finalizado''),
                          Usuario_Operacao := Some n\<rparr>
                   else r) (SMO_Sistema db)
      \<and> SMO_Sistema (store (submitManifestoAction_part_000 env a i n db)) =
          map (\<lambda>r. if ID_Manifesto r = Some i
                   then r\<lparr>Status := Some (if a = ''Iniciar Manifesto''
                                           then ''Manifesto Iniciado''
                                           else ''Manifesto Finalizado''),
                          Usuario_Operacao := Some n\<rparr>
                   else r) (SMO_Sistema db)
      \<and> SMO_Sistema (store (submitManifestoAction_part_001 env a i n db)) =
          map (\<lambda>r. if ID_Manifesto r = Some i
                   then r\<lparr>Status := Some (if a = ''Iniciar Manifesto''
                                           then ''Manifesto Iniciado''
                                           else ''Manifesto Finalizado''),
                          Usuario_Operacao := Some n\<rparr>
                   else r) (SMO_Sistema db)"
      using ins upd
      by (simp only: submit_update_succeeds submit_sels SMO_Sistema_update_rows simp_thms)
  qed
  show "take 2 (calls (submitManifestoAction env a i n db)) =
       [Insert_registros (new_row env a i n),
        Update_SMO (if a = ''Iniciar Puxe'' then ''Manifesto Iniciado''
                    else ''Manifesto Finalizado'') n i]
   \<and> status_updates (calls (submitManifestoAction env a i n db)) =
       [(if a = ''Iniciar Puxe'' then ''Manifesto Iniciado'' else ''Manifesto Finalizado'', n, i)]
   \<and> take 2 (calls (submitManifestoAction_part_000 env a i n db)) =
       [Insert_registros (new_row env a i n),
        Update_SMO (if a = ''Iniciar Manifesto'' then ''Manifesto Iniciado''
                    else ''Manifesto Finalizado'') n i]
   \<and> status_updates (calls (submitManifestoAction_part_000 env a i n db)) =
       [(if a = ''Iniciar Manifesto'' then ''Manifesto Iniciado''
         else ''Manifesto Finalizado'', n, i)]
   \<and> take 2 (calls (submitManifestoAction_part_001 env a i n db)) =
       [Insert_registros (new_row env a i n),
        Update_SMO (if a = ''Iniciar Manifesto'' then ''Manifesto Iniciado''
                    else ''Manifesto Finalizado'') n i]
   \<and> status_updates (calls (submitManifestoAction_part_001 env a i n db)) =
       [(if a = ''Iniciar Manifesto'' then ''Manifesto Iniciado''
         else ''Manifesto Finalizado'', n, i)]
   \<and> (succeeds (update_fault env) \<longrightarrow>
        SMO_Sistema (store (submitManifestoAction env a i n db)) =
          map (\<lambda>r. if ID_Manifesto r = Some i
                   then r\<lparr>Status := Some (if a = ''Iniciar Puxe'' then ''Manifesto Iniciado''
                                           else ''Manifesto Finalizado''),
                          Usuario_Operacao := Some n\<rparr>
                   else r) (SMO_Sistema db)
      \<and> SMO_Sistema (store (submitManifestoAction_part_000 env a i n db)) =
          map (\<lambda>r. if ID_Manifesto r = Some i
                   then r\<lparr>Status := Some (if a = ''Iniciar Manifesto''
                                           then ''Manifesto Iniciado''
                                           else ''Manifesto Finalizado''),
                          Usuario_Operacao := Some n\<rparr>
                   else r) (SMO_Sistema db)
      \<and> SMO_Sistema (store (submitManifestoAction_part_001 env a i n db)) =
          map (\<lambda>r. if ID_Manifesto r = Some i
                   then r\<lparr>Status := Some (if a = ''Iniciar Manifesto''
                                           then ''Manifesto Iniciado''
                                           else ''Manifesto Finalizado''),
                          Usuario_Operacao := Some n\<rparr>
                   else r) (SMO_Sistema db))"
    using submit_calls_prefix [OF ins, of a i n db] submit_status_updates [OF ins, of a i n db] st
    by (intro conjI) (simp_all only:)
qed

theorem submitManifestoAction_status_update_witness:
  "succeeds (insert_fault ex_env) \<and> succeeds (update_fault ex_env)
   \<and> calls (submitManifestoAction ex_env ''Iniciar Puxe'' ''X1'' ''Joao'' ex_db) =
       [Insert_registros
          \<lparr>manifesto_id = ''X1'', acao = ''Iniciar Puxe'', nome = ''Joao'',
           created_at = ''2025-02-01T12:00:00.000Z''\<rparr>,
        Update_SMO ''Manifesto Iniciado'' ''Joao'' ''X1'']
   \<and> map (\<lambda>r. (ID_Manifesto r, Status r, Usuario_Operacao r))
        (SMO_Sistema (store (submitManifestoAction ex_env ''Iniciar Puxe'' ''X1'' ''Joao'' ex_db))) =
       [(Some ''X1'', Some ''Manifesto Iniciado'', Some ''Joao''),
        (Some ''X2'', Some ''Manifesto Recebido'', None),
        (Some ''X3'', Some ''Manifesto Recebido'', None),
        (Some ''X4'', Some ''Manifesto Recebido'', None)]
   \<and> status_updates
        (calls (submitManifestoAction ex_env ''Finalizar Puxe'' ''X1'' ''Joao'' ex_db)) =
       [(''Manifesto Finalizado'', ''Joao'', ''X1'')]"
  using submitManifestoAction_status_update
      [of ex_env "''Iniciar Puxe''" "''X1''" "''Joao''" ex_db]
    submitManifestoAction_status_update
      [of ex_env "''Finalizar Puxe''" "''X1''" "''Joao''" ex_db]
  by (simp add: ex_env_def ex_db_def row0_def succeeds_def submitManifestoAction_def
      supabase_insert_def supabase_update_def insert_row_def update_rows_def
      return_message_def new_row_def Let_def)
section \<open>The webhook\<close>

text \<open>
  Claim C3, as stated, fails in two ways. A submission with the start label whose insert
  throws ends in the outer \<^verbatim>\<open>catch\<close> block before the webhook is reached, so nothing
  is posted; and \<^verbatim>\<open>src/services/api.ts\<close> has no webhook at all, whatever the label.
\<close>

theorem submitManifestoAction_webhook_counterexample:
  "webhook_posts (calls (submitManifestoAction_part_000
       (ex_env\<lparr>insert_fault := Throws ''Failed to fetch''\<rparr>)
       ''Iniciar Manifesto'' ''X1'' ''Joao'' ex_db)) = []
   \<and> webhook_posts (calls (submitManifestoAction_part_001
       (ex_env\<lparr>insert_fault := Throws ''Failed to fetch''\<rparr>)
       ''Iniciar Manifesto'' ''X1'' ''Joao'' ex_db)) = []
   \<and> webhook_posts (calls (submitManifestoAction ex_env
       ''Iniciar Puxe'' ''X1'' ''Joao'' ex_db)) = []"
  by (simp add: submit_insert_Throws catch_error_sel submit_webhook_posts)

text \<open>
  Claim C3, amended. In \<^verbatim>\<open>part_000\<close> and \<^verbatim>\<open>part_001\<close>, a submission with the start
  label \<^verbatim>\<open>Iniciar Manifesto\<close> whose insert succeeds and whose update does not throw
  issues exactly one POST, to the URL ending in \<^verbatim>\<open>/webhook/Iniciar-Manifesto\<close>,
  whose body holds \<^verbatim>\<open>id_manifesto\<close>, \<^verbatim>\<open>nome\<close> and, under \<^verbatim>\<open>Manifesto_Iniciado\<close>, the
  pt-BR reading of the clock; when that request fails, the failure is logged to the
  console as the last thing the submission does. When the insert or the update throws,
  nothing is posted. \<^verbatim>\<open>src/services/api.ts\<close> never posts. In every version the result
  and the store do not depend on what becomes of the webhook request.
\<close>

theorem submitManifestoAction_webhook:
  "(succeeds (insert_fault env) \<and> \<not> throws (update_fault env) \<longrightarrow>
      webhook_posts (calls (submitManifestoAction_part_000 env ''Iniciar Manifesto'' i n db)) =
        [(''https://projeto-teste-n8n.ly7t0m.easypanel.host/webhook/Iniciar-Manifesto'',
          [(''id_manifesto'', i), (''nome'', n),
           (''Manifesto_Iniciado'', toLocaleString_ptBR_now env)])]
    \<and> webhook_posts (calls (submitManifestoAction_part_001 env ''Iniciar Manifesto'' i n db)) =
        [(''https://projeto-teste-n8n.ly7t0m.easypanel.host/webhook/Iniciar-Manifesto'',
          [(''id_manifesto'', i), (''nome'', n),
           (''Manifesto_Iniciado'', toLocaleString_ptBR_now env)])]
    \<and> (fetch_rejects env \<noteq> None \<longrightarrow>
         last (calls (submitManifestoAction_part_000 env ''Iniciar Manifesto'' i n db)) =
           Console_error ''Webhook error:''
       \<and> last (calls (submitManifestoAction_part_001 env ''Iniciar Manifesto'' i n db)) =
           Console_error ''Webhook error:''))
   \<and> (submit_throws env \<longrightarrow>
        webhook_posts (calls (submitManifestoAction_part_000 env a i n db)) = []
      \<and> webhook_posts (calls (submitManifestoAction_part_001 env a i n db)) = [])
   \<and> webhook_posts (calls (submitManifestoAction env a i n db)) = []
   \<and> result (submitManifestoAction_part_000 (env\<lparr>fetch_rejects := w\<rparr>) a i n db) =
       result (submitManifestoAction_part_000 env a i n db)
   \<and> store (submitManifestoAction_part_000 (env\<lparr>fetch_rejects := w\<rparr>) a i n db) =
       store (submitManifestoAction_part_000 env a i n db)
   \<and> result (submitManifestoAction_part_001 (env\<lparr>fetch_rejects := w\<rparr>) a i n db) =
       result (submitManifestoAction_part_001 env a i n db)
   \<and> store (submitManifestoAction_part_001 (env\<lparr>fetch_rejects := w\<rparr>) a i n db) =
       store (submitManifestoAction_part_001 env a i n db)
   \<and> submitManifestoAction (env\<lparr>fetch_rejects := w\<rparr>) a i n db =
       submitManifestoAction env a i n db"
proof -
  have nt: "succeeds (insert_fault env) \<and> \<not> throws (update_fault env) \<longrightarrow>
      \<not> submit_throws env"
    by (auto simp: submit_throws_def succeeds_def throws_def)
  have posts: "\<not> submit_throws env \<longrightarrow>
      webhook_posts (calls (submitManifestoAction_part_000 env ''Iniciar Manifesto'' i n db)) =
        [(''https://projeto-teste-n8n.ly7t0m.easypanel.host/webhook/Iniciar-Manifesto'',
          [(''id_manifesto'', i), (''nome'', n),
           (''Manifesto_Iniciado'', toLocaleString_ptBR_now env)])]
    \<and> webhook_posts (calls (submitManifestoAction_part_001 env ''Iniciar Manifesto'' i n db)) =
        [(''https://projeto-teste-n8n.ly7t0m.easypanel.host/webhook/Iniciar-Manifesto'',
          [(''id_manifesto'', i), (''nome'', n),
           (''Manifesto_Iniciado'', toLocaleString_ptBR_now env)])]"
    by (simp add: submit_webhook_posts Iniciar_Manifesto_url_def Iniciar_body_def)
  have logged: "\<not> submit_throws env \<longrightarrow> fetch_rejects env \<noteq> None \<longrightarrow>
         last (calls (submitManifestoAction_part_000 env ''Iniciar Manifesto'' i n db)) =
           Console_error ''Webhook error:''
       \<and> last (calls (submitManifestoAction_part_001 env ''Iniciar Manifesto'' i n db)) =
           Console_error ''Webhook error:''"
    using submit_last_call [of env i n db]
    by (auto simp: try_fetch_def split: option.splits)
  have none: "submit_throws env \<longrightarrow>
        webhook_posts (calls (submitManifestoAction_part_000 env a i n db)) = []
      \<and> webhook_posts (calls (submitManifestoAction_part_001 env a i n db)) = []"
    by (simp add: submit_webhook_posts)
  have api: "webhook_posts (calls (submitManifestoAction env a i n db)) = []"
    by (simp add: submit_webhook_posts)
  show ?thesis
    using nt posts logged none api submit_fetch_independent [where env = env and w = w and a = a and i = i and n = n and db = db]
    by blast
qed

theorem submitManifestoAction_webhook_witness:
  "succeeds (insert_fault (ex_env\<lparr>fetch_rejects := Some ''Failed to fetch''\<rparr>))
   \<and> \<not> throws (update_fault (ex_env\<lparr>fetch_rejects := Some ''Failed to fetch''\<rparr>))
   \<and> fetch_rejects (ex_env\<lparr>fetch_rejects := Some ''Failed to fetch''\<rparr>) \<noteq> None
   \<and> submitManifestoAction_part_000 (ex_env\<lparr>fetch_rejects := Some ''Failed to fetch''\<rparr>)
        ''Iniciar Manifesto'' ''X1'' ''Joao'' ex_db =
       \<lparr>result = \<lparr>success = True, message = ''Manifesto iniciado com sucesso!''\<rparr>,
        store = update_rows ''Manifesto Iniciado'' ''Joao'' ''X1''
                  (insert_row \<lparr>manifesto_id = ''X1'', acao = ''Iniciar Manifesto'',
                     nome = ''Joao'', created_at = ''2025-02-01T12:00:00.000Z''\<rparr> ex_db),
        calls =
          [Insert_registros
             \<lparr>manifesto_id = ''X1'', acao = ''Iniciar Manifesto'', nome = ''Joao'',
              created_at = ''2025-02-01T12:00:00.000Z''\<rparr>,
           Update_SMO ''Manifesto Iniciado'' ''Joao'' ''X1'',
           POST ''https://projeto-teste-n8n.ly7t0m.easypanel.host/webhook/Iniciar-Manifesto''
             [(''id_manifesto'', ''X1''), (''nome'', ''Joao''),
              (''Manifesto_Iniciado'', ''01/02/2025, 09:00:00'')],
           Console_error ''Webhook error:'']\<rparr>
   \<and> result (submitManifestoAction_part_001 ex_env
        ''Iniciar Manifesto'' ''X1'' ''Joao'' ex_db) =
       \<lparr>success = True, message = ''Manifesto iniciado com sucesso!''\<rparr>
   \<and> result (submitManifestoAction_part_001
        (ex_env\<lparr>fetch_rejects := Some ''Failed to fetch''\<rparr>)
        ''Iniciar Manifesto'' ''X1'' ''Joao'' ex_db) =
       \<lparr>success = True, message = ''Manifesto iniciado com sucesso!''\<rparr>
   \<and> submit_throws (ex_env\<lparr>update_fault := Throws ''Failed to fetch''\<rparr>)
   \<and> calls (submitManifestoAction_part_001
        (ex_env\<lparr>update_fault := Throws ''Failed to fetch''\<rparr>)
        ''Iniciar Manifesto'' ''X1'' ''Joao'' ex_db) =
       [Insert_registros
          \<lparr>manifesto_id = ''X1'', acao = ''Iniciar Manifesto'', nome = ''Joao'',
           created_at = ''2025-02-01T12:00:00.000Z''\<rparr>,
        Update_SMO ''Manifesto Iniciado'' ''Joao'' ''X1'']"
  using submitManifestoAction_webhook
      [where env = "ex_env\<lparr>fetch_rejects := Some ''Failed to fetch''\<rparr>" and i = "''X1''"
        and n = "''Joao''" and db = ex_db and a = "''Iniciar Manifesto''" and w = None]
    submitManifestoAction_webhook
      [where env = "ex_env\<lparr>update_fault := Throws ''Failed to fetch''\<rparr>" and i = "''X1''"
        and n = "''Joao''" and db = ex_db and a = "''Iniciar Manifesto''" and w = None]
  by (simp add: ex_env_def submit_throws_def throws_def succeeds_def
      submitManifestoAction_part_000_def submitManifestoAction_part_001_def
      supabase_insert_def supabase_update_def webhook_and_message_part_000_def
      webhook_and_message_part_001_def return_message_Manifesto_def try_fetch_def
      catch_error_def Iniciar_Manifesto_url_def Let_def)

section \<open>The success messages\<close>

text \<open>
  Claim C4, as stated, fails on \<^verbatim>\<open>src/services/api.ts\<close>, the module the component
  imports: its start and finish labels are \<^verbatim>\<open>Iniciar Puxe\<close> and \<^verbatim>\<open>Finalizar Puxe\<close> and
  its messages for them are \<^verbatim>\<open>Puxe registrado com sucesso!\<close> and
  \<^verbatim>\<open>Obrigado, puxe concluido!\<close> (with an acute accent). The label \<^verbatim>\<open>Iniciar Manifesto\<close>
  is, for this version, any other label.
\<close>

theorem submitManifestoAction_message_counterexample:
  "result (submitManifestoAction ex_env ''Iniciar Puxe'' ''X1'' ''Joao'' ex_db) =
     \<lparr>success = True, message = ''Puxe registrado com sucesso!''\<rparr>
   \<and> message (result (submitManifestoAction ex_env ''Iniciar Puxe'' ''X1'' ''Joao'' ex_db)) \<noteq>
     ''Manifesto iniciado com sucesso!''
   \<and> result (submitManifestoAction ex_env ''Finalizar Puxe'' ''X1'' ''Joao'' ex_db) =
     \<lparr>success = True, message = ''Obrigado, puxe conclu'' @ [CHR 0xED] @ ''do!''\<rparr>
   \<and> message (result (submitManifestoAction ex_env ''Finalizar Puxe'' ''X1'' ''Joao'' ex_db)) \<noteq>
     ''Manifesto finalizado com sucesso!''
   \<and> result (submitManifestoAction ex_env ''Iniciar Manifesto'' ''X1'' ''Joao'' ex_db) =
     \<lparr>success = True, message = ''Registro salvo com sucesso!''\<rparr>"
  by (simp add: ex_env_def submitManifestoAction_def supabase_insert_def supabase_update_def
      return_message_def Let_def)

text \<open>
  Claim C4, amended. In \<^verbatim>\<open>part_000\<close> and \<^verbatim>\<open>part_001\<close>, a submission that returns
  \<^verbatim>\<open>success: true\<close> returns the message \<^verbatim>\<open>Manifesto iniciado com sucesso!\<close> for the
  action \<^verbatim>\<open>Iniciar Manifesto\<close>, \<^verbatim>\<open>Manifesto finalizado com sucesso!\<close> for
  \<^verbatim>\<open>Finalizar Manifesto\<close> and \<^verbatim>\<open>Registro salvo com sucesso!\<close> for any other action. In
  \<^verbatim>\<open>src/services/api.ts\<close> it returns \<^verbatim>\<open>Puxe registrado com sucesso!\<close> for
  \<^verbatim>\<open>Iniciar Puxe\<close>, \<^verbatim>\<open>Obrigado, puxe concluido!\<close> (acute accent on the i) for
  \<^verbatim>\<open>Finalizar Puxe\<close> and \<^verbatim>\<open>Registro salvo com sucesso!\<close> for any other action.
\<close>

theorem submitManifestoAction_success_message:
  "(success (result (submitManifestoAction_part_000 env a i n db)) \<longrightarrow>
      message (result (submitManifestoAction_part_000 env a i n db)) =
        (if a = ''Iniciar Manifesto'' then ''Manifesto iniciado com sucesso!''
         else if a = ''Finalizar Manifesto'' then ''Manifesto finalizado com sucesso!''
         else ''Registro salvo com sucesso!''))
   \<and> (success (result (submitManifestoAction_part_001 env a i n db)) \<longrightarrow>
      message (result (submitManifestoAction_part_001 env a i n db)) =
        (if a = ''Iniciar Manifesto'' then ''Manifesto iniciado com sucesso!''
         else if a = ''Finalizar Manifesto'' then ''Manifesto finalizado com sucesso!''
         else ''Registro salvo com sucesso!''))
   \<and> (success (result (submitManifestoAction env a i n db)) \<longrightarrow>
      message (result (submitManifestoAction env a i n db)) =
        (if a = ''Iniciar Puxe'' then ''Puxe registrado com sucesso!''
         else if a = ''Finalizar Puxe'' then ''Obrigado, puxe conclu'' @ [CHR 0xED] @ ''do!''
         else ''Registro salvo com sucesso!''))"
proof (cases "submit_throws env")
  case True
  then show ?thesis
    using submit_result [of env a i n db] by simp
next
  case False
  then show ?thesis
    using submit_result [of env a i n db]
    by (simp add: result_return_message result_return_message_Manifesto)
qed

theorem submitManifestoAction_success_message_witness:
  "success (result (submitManifestoAction_part_001 ex_env
      ''Finalizar Manifesto'' ''X1'' ''Joao'' ex_db))
   \<and> message (result (submitManifestoAction_part_001 ex_env
      ''Finalizar Manifesto'' ''X1'' ''Joao'' ex_db)) = ''Manifesto finalizado com sucesso!''
   \<and> success (result (submitManifestoAction_part_000 ex_env
      ''Iniciar Manifesto'' ''X1'' ''Joao'' ex_db))
   \<and> message (result (submitManifestoAction_part_000 ex_env
      ''Iniciar Manifesto'' ''X1'' ''Joao'' ex_db)) = ''Manifesto iniciado com sucesso!''
   \<and> success (result (submitManifestoAction ex_env ''Conferir'' ''X1'' ''Joao'' ex_db))
   \<and> message (result (submitManifestoAction ex_env ''Conferir'' ''X1'' ''Joao'' ex_db)) =
       ''Registro salvo com sucesso!''"
  using submitManifestoAction_success_message
      [of ex_env "''Finalizar Manifesto''" "''X1''" "''Joao''" ex_db]
    submitManifestoAction_success_message
      [of ex_env "''Iniciar Manifesto''" "''X1''" "''Joao''" ex_db]
    submitManifestoAction_success_message
      [of ex_env "''Conferir''" "''X1''" "''Joao''" ex_db]
  by (simp add: submit_result submit_sels submit_throws_def throws_def succeeds_def ex_env_def)

section \<open>Properties of the root component\<close>

lemma handleSubmit_no_action:
  "action s = [] \<Longrightarrow> handleSubmit s = (s\<lparr>feedback := \<lparr>fb_text = [], fb_type = []\<rparr>\<rparr>, [])"
  by (simp add: handleSubmit_def Let_def)

lemma handleSubmit_missing_field:
  "action s = ''Iniciar Puxe'' \<or> action s = ''Finalizar Puxe'' \<Longrightarrow>
   name s = [] \<or> selectedManifestoId s = [] \<Longrightarrow>
   handleSubmit s = (s\<lparr>feedback := error_feedback ''Preencha todos os campos.''\<rparr>, [])"
  by (auto simp: handleSubmit_def error_feedback_def Let_def)

lemma handleSubmit_invalid_name:
  "action s = ''Iniciar Puxe'' \<Longrightarrow> name s \<noteq> [] \<Longrightarrow> selectedManifestoId s \<noteq> [] \<Longrightarrow>
   namesList s \<noteq> [] \<Longrightarrow>
   \<not> (\<exists>x \<in> set (namesList s). toLowerCase x = toLowerCase (name s)) \<Longrightarrow>
   handleSubmit s =
     (s\<lparr>feedback := error_feedback
         (''Por favor, escolha um nome v'' @ [CHR 0xE1] @ ''lido da lista.'')\<rparr>, [])"
  by (simp add: handleSubmit_def error_feedback_def list_ex_iff Let_def)

lemma handleSubmit_fields_valid:
  "fields_valid s \<Longrightarrow>
   handleSubmit s =
     (if lastSubmission s = Some (submissionKey (action s) (selectedManifestoId s) (name s))
      then (s\<lparr>feedback := error_feedback
               (''Este registro j'' @ [CHR 0xE1] @ '' foi enviado recentemente!'')\<rparr>, [])
      else (s\<lparr>feedback := \<lparr>fb_text = [], fb_type = []\<rparr>, loading := True,
              loadingMessage := ''Processando...''\<rparr>,
            [SetTimeout_submit 1500 (action s) (selectedManifestoId s) (name s)
               (submissionKey (action s) (selectedManifestoId s) (name s))]))"
  by (auto simp: fields_valid_def handleSubmit_def error_feedback_def list_ex_iff Let_def)

lemma fields_valid_cong:
  "action s' = action s \<Longrightarrow> name s' = name s \<Longrightarrow>
   selectedManifestoId s' = selectedManifestoId s \<Longrightarrow> namesList s' = namesList s \<Longrightarrow>
   fields_valid s' = fields_valid s"
  by (simp add: fields_valid_def)

lemma submissionKey_inject:
  "submissionKey a i n = submissionKey a' i n \<longleftrightarrow> a = a'"
  "submissionKey a i n = submissionKey a i' n \<longleftrightarrow> i = i'"
  "submissionKey a i n = submissionKey a i n' \<longleftrightarrow> n = n'"
  by (simp_all add: submissionKey_def)

lemma handleSubmit_timeout_failure:
  "\<not> success res \<Longrightarrow>
   handleSubmit_timeout a i n k res s =
     (s\<lparr>loading := False, feedback := error_feedback (message res)\<rparr>, [])"
  by (simp add: handleSubmit_timeout_def error_feedback_def Let_def)

lemma handleSubmit_timeout_success:
  "success res \<Longrightarrow>
   lastSubmission (fst (handleSubmit_timeout a i n k res s)) = Some k
   \<and> action (fst (handleSubmit_timeout a i n k res s)) = action s
   \<and> namesList (fst (handleSubmit_timeout a i n k res s)) = namesList s"
  by (simp add: handleSubmit_timeout_def and_then_def loadIds_def Let_def)

text \<open>The only transition that writes \<^verbatim>\<open>lastSubmission\<close> is the return of a successful
  submission.\<close>

lemma step_lastSubmission:
  "lastSubmission (fst (step e s)) =
     (case e of
        Submit_returned a i n k res \<Rightarrow> if success res then Some k else lastSubmission s
      | _ \<Rightarrow> lastSubmission s)"
  by (cases e)
    (simp_all add: setAction_def action_effect_def handleNameChange_def handleRefresh_def
      handleSubmit_def on_SMO_Sistema_change_def on_Cadastro_Operacional_change_def
      loadNames_def loadIds_def loadIdsFinalization_def loadNames_resumed_def
      loadIds_resumed_def loadIdsFinalization_resumed_def handleSubmit_timeout_def
      and_then_def Let_def)

lemma toLowerCase_examples:
  "toLowerCase ''Ana'' = ''ana''"
  "toLowerCase ''ana'' = ''ana''"
  "toLowerCase ''BEN'' = ''ben''"
  "toLowerCase ''Carla'' = ''carla''"
  by code_simp+

text \<open>The clock readings have no part in the result of the write operation.\<close>

lemma submit_result_clock_independent:
  "result (submitManifestoAction
      (env\<lparr>toISOString_now := t, toLocaleString_ptBR_now := t'\<rparr>) a i n db) =
   result (submitManifestoAction env a i n db)"
proof (cases env rule: submit_throws_cases)
  case (insert_throws m)
  then show ?thesis
    by (simp add: submit_insert_Throws submit_sels catch_error_def)
next
  case (insert_reports m)
  then show ?thesis
    by (simp add: submit_insert_Reports result_return_message)
next
  case (update_throws m)
  then show ?thesis
    by (simp add: submit_update_Throws catch_error_def)
next
  case (update_reports m)
  then show ?thesis
    by (simp add: submit_update_Reports result_return_message)
next
  case both_succeed
  then show ?thesis
    by (simp add: submit_update_succeeds result_return_message)
qed
section \<open>Validation on submit\<close>

text \<open>
  Claim C5. \<^verbatim>\<open>handleSubmit\<close> first clears the feedback and then checks in order,
  stopping at the first check that fails and leaving nothing for later (no timer, so no
  call of the backend): (1) with no action selected nothing else happens and no feedback
  is shown, so that the state is left as it was whenever no feedback was on display; (2) for either action, an empty name or an empty manifest id gives the error
  feedback \<^verbatim>\<open>Preencha todos os campos.\<close>, whatever the name list and the last
  submission are; (3) for the start action only, with a non-empty name list, a name that
  matches no entry of the list up to letter case gives the error feedback
  \<^verbatim>\<open>Por favor, escolha um nome valido da lista.\<close> (with an acute accent), whatever the
  last submission is. A name that matches an entry up to letter case, an empty name list,
  and any name for the finish action pass on to the duplicate check.
\<close>

theorem handleSubmit_validation:
  "(action s = [] \<longrightarrow>
      handleSubmit s = (s\<lparr>feedback := \<lparr>fb_text = [], fb_type = []\<rparr>\<rparr>, []))
   \<and> (action s = [] \<and> feedback s = \<lparr>fb_text = [], fb_type = []\<rparr> \<longrightarrow>
      handleSubmit s = (s, []))
   \<and> ((action s = ''Iniciar Puxe'' \<or> action s = ''Finalizar Puxe'')
        \<and> (name s = [] \<or> selectedManifestoId s = []) \<longrightarrow>
      handleSubmit s =
        (s\<lparr>feedback := \<lparr>fb_text = ''Preencha todos os campos.'', fb_type = ''error''\<rparr>\<rparr>, []))
   \<and> (action s = ''Iniciar Puxe'' \<and> name s \<noteq> [] \<and> selectedManifestoId s \<noteq> []
        \<and> namesList s \<noteq> []
        \<and> \<not> (\<exists>x \<in> set (namesList s). toLowerCase x = toLowerCase (name s)) \<longrightarrow>
      handleSubmit s =
        (s\<lparr>feedback :=
            \<lparr>fb_text = ''Por favor, escolha um nome v'' @ [CHR 0xE1] @ ''lido da lista.'',
             fb_type = ''error''\<rparr>\<rparr>, []))
   \<and> ((action s = ''Iniciar Puxe''
         \<and> (namesList s = [] \<or> (\<exists>x \<in> set (namesList s). toLowerCase x = toLowerCase (name s)))
         \<or> action s = ''Finalizar Puxe'')
        \<and> name s \<noteq> [] \<and> selectedManifestoId s \<noteq> [] \<longrightarrow>
      handleSubmit s =
        (if lastSubmission s =
              Some (submissionKey (action s) (selectedManifestoId s) (name s))
         then (s\<lparr>feedback :=
                  \<lparr>fb_text = ''Este registro j'' @ [CHR 0xE1] @ '' foi enviado recentemente!'',
                   fb_type = ''error''\<rparr>\<rparr>, [])
         else (s\<lparr>feedback := \<lparr>fb_text = [], fb_type = []\<rparr>, loading := True,
                 loadingMessage := ''Processando...''\<rparr>,
               [SetTimeout_submit 1500 (action s) (selectedManifestoId s) (name s)
                  (submissionKey (action s) (selectedManifestoId s) (name s))])))"
proof (intro conjI impI)
  assume "action s = []"
  then show "handleSubmit s = (s\<lparr>feedback := \<lparr>fb_text = [], fb_type = []\<rparr>\<rparr>, [])"
    by (rule handleSubmit_no_action)
next
  assume "action s = [] \<and> feedback s = \<lparr>fb_text = [], fb_type = []\<rparr>"
  then show "handleSubmit s = (s, [])"
    using handleSubmit_no_action [of s] by (cases s) simp
next
  assume "(action s = ''Iniciar Puxe'' \<or> action s = ''Finalizar Puxe'')
        \<and> (name s = [] \<or> selectedManifestoId s = [])"
  then show "handleSubmit s =
        (s\<lparr>feedback := \<lparr>fb_text = ''Preencha todos os campos.'', fb_type = ''error''\<rparr>\<rparr>, [])"
    using handleSubmit_missing_field [of s] by (simp add: error_feedback_def)
next
  assume "action s = ''Iniciar Puxe'' \<and> name s \<noteq> [] \<and> selectedManifestoId s \<noteq> []
        \<and> namesList s \<noteq> []
        \<and> \<not> (\<exists>x \<in> set (namesList s). toLowerCase x = toLowerCase (name s))"
  then show "handleSubmit s =
        (s\<lparr>feedback :=
            \<lparr>fb_text = ''Por favor, escolha um nome v'' @ [CHR 0xE1] @ ''lido da lista.'',
             fb_type = ''error''\<rparr>\<rparr>, [])"
    using handleSubmit_invalid_name [of s] by (simp add: error_feedback_def)
next
  assume "(action s = ''Iniciar Puxe''
         \<and> (namesList s = [] \<or> (\<exists>x \<in> set (namesList s). toLowerCase x = toLowerCase (name s)))
         \<or> action s = ''Finalizar Puxe'')
        \<and> name s \<noteq> [] \<and> selectedManifestoId s \<noteq> []"
  then have "fields_valid s"
    by (auto simp: fields_valid_def)
  then show "handleSubmit s =
        (if lastSubmission s =
              Some (submissionKey (action s) (selectedManifestoId s) (name s))
         then (s\<lparr>feedback :=
                  \<lparr>fb_text = ''Este registro j'' @ [CHR 0xE1] @ '' foi enviado recentemente!'',
                   fb_type = ''error''\<rparr>\<rparr>, [])
         else (s\<lparr>feedback := \<lparr>fb_text = [], fb_type = []\<rparr>, loading := True,
                 loadingMessage := ''Processando...''\<rparr>,
               [SetTimeout_submit 1500 (action s) (selectedManifestoId s) (name s)
                  (submissionKey (action s) (selectedManifestoId s) (name s))]))"
    using handleSubmit_fields_valid [of s] by (simp add: error_feedback_def)
qed

theorem handleSubmit_validation_witness:
  "action initial_state = []
   \<and> handleSubmit initial_state = (initial_state, [])
   \<and> handleSubmit (ex_form\<lparr>selectedManifestoId := []\<rparr>) =
       (ex_form\<lparr>selectedManifestoId := [],
          feedback := \<lparr>fb_text = ''Preencha todos os campos.'', fb_type = ''error''\<rparr>\<rparr>, [])
   \<and> handleSubmit (ex_form\<lparr>action := ''Finalizar Puxe'', name := []\<rparr>) =
       (ex_form\<lparr>action := ''Finalizar Puxe'', name := [],
          feedback := \<lparr>fb_text = ''Preencha todos os campos.'', fb_type = ''error''\<rparr>\<rparr>, [])
   \<and> handleSubmit (ex_form\<lparr>name := ''Carla''\<rparr>) =
       (ex_form\<lparr>name := ''Carla'',
          feedback :=
            \<lparr>fb_text = ''Por favor, escolha um nome v'' @ [CHR 0xE1] @ ''lido da lista.'',
             fb_type = ''error''\<rparr>\<rparr>, [])
   \<and> handleSubmit ex_form =
       (ex_form\<lparr>loading := True\<rparr>,
        [SetTimeout_submit 1500 ''Iniciar Puxe'' ''X1'' ''Ana'' ''Iniciar Puxe-X1-Ana''])
   \<and> handleSubmit (ex_form\<lparr>action := ''Finalizar Puxe'', name := ''Carla''\<rparr>) =
       (ex_form\<lparr>action := ''Finalizar Puxe'', name := ''Carla'', loading := True\<rparr>,
        [SetTimeout_submit 1500 ''Finalizar Puxe'' ''X1'' ''Carla''
           ''Finalizar Puxe-X1-Carla''])"
  using handleSubmit_validation [of initial_state]
    handleSubmit_validation [of "ex_form\<lparr>selectedManifestoId := []\<rparr>"]
    handleSubmit_validation [of "ex_form\<lparr>action := ''Finalizar Puxe'', name := []\<rparr>"]
    handleSubmit_validation [of "ex_form\<lparr>name := ''Carla''\<rparr>"]
    handleSubmit_validation [of ex_form]
    handleSubmit_validation [of "ex_form\<lparr>action := ''Finalizar Puxe'', name := ''Carla''\<rparr>"]
  by (simp add: ex_form_def initial_state_def toLowerCase_examples submissionKey_def)
section \<open>The duplicate-submission guard\<close>

text \<open>
  Claim C6. The key of the duplicate check is built from the action, the manifest id and
  the name and from nothing else: changing exactly one of the three changes the key, and
  the clock readings of a submission have no part in the key that its success records.
  After a successful submission the recorded key is the key of that submission, so a form
  that passes the field checks with the same action, manifest id and name is rejected with
  \<^verbatim>\<open>Este registro ja foi enviado recentemente!\<close> (with an acute accent) and leaves
  nothing for later; a form that passes the field checks and differs from the recorded
  submission in exactly one of the three fields goes on to the submit timer.
\<close>

theorem submissionKey_duplicate_guard:
  "(submissionKey a i n = submissionKey a' i n \<longleftrightarrow> a = a')
   \<and> (submissionKey a i n = submissionKey a i' n \<longleftrightarrow> i = i')
   \<and> (submissionKey a i n = submissionKey a i n' \<longleftrightarrow> n = n')
   \<and> lastSubmission (fst (fst (submit_timer_fires
          (env\<lparr>toISOString_now := t, toLocaleString_ptBR_now := t'\<rparr>) db
          (SetTimeout_submit ms a i n (submissionKey a i n)) s))) =
       lastSubmission (fst (fst (submit_timer_fires env db
          (SetTimeout_submit ms a i n (submissionKey a i n)) s)))
   \<and> (success (result (submitManifestoAction env a i n db)) \<longrightarrow>
        lastSubmission (fst (fst (submit_timer_fires env db
          (SetTimeout_submit ms a i n (submissionKey a i n)) s))) = Some (submissionKey a i n))
   \<and> (fields_valid s \<and>
        lastSubmission s = Some (submissionKey (action s) (selectedManifestoId s) (name s)) \<longrightarrow>
        handleSubmit s =
          (s\<lparr>feedback :=
              \<lparr>fb_text = ''Este registro j'' @ [CHR 0xE1] @ '' foi enviado recentemente!'',
               fb_type = ''error''\<rparr>\<rparr>, []))
   \<and> (fields_valid s \<and> lastSubmission s = Some (submissionKey a i n)
        \<and> (a \<noteq> action s \<and> i = selectedManifestoId s \<and> n = name s
           \<or> a = action s \<and> i \<noteq> selectedManifestoId s \<and> n = name s
           \<or> a = action s \<and> i = selectedManifestoId s \<and> n \<noteq> name s) \<longrightarrow>
        snd (handleSubmit s) =
          [SetTimeout_submit 1500 (action s) (selectedManifestoId s) (name s)
             (submissionKey (action s) (selectedManifestoId s) (name s))])
   \<and> (fields_valid s
        \<and> lastSubmission s \<noteq> Some (submissionKey (action s) (selectedManifestoId s) (name s))
        \<and> success res \<longrightarrow>
        handleSubmit
          ((fst (handleSubmit_timeout (action s) (selectedManifestoId s) (name s)
                  (submissionKey (action s) (selectedManifestoId s) (name s)) res
                  (fst (handleSubmit s))))
           \<lparr>name := name s, selectedManifestoId := selectedManifestoId s\<rparr>) =
          ((fst (handleSubmit_timeout (action s) (selectedManifestoId s) (name s)
                  (submissionKey (action s) (selectedManifestoId s) (name s)) res
                  (fst (handleSubmit s))))
           \<lparr>name := name s, selectedManifestoId := selectedManifestoId s,
             feedback :=
               \<lparr>fb_text = ''Este registro j'' @ [CHR 0xE1] @ '' foi enviado recentemente!'',
                fb_type = ''error''\<rparr>\<rparr>, []))"
proof -
  have clock: "lastSubmission (fst (fst (submit_timer_fires
          (env\<lparr>toISOString_now := t, toLocaleString_ptBR_now := t'\<rparr>) db
          (SetTimeout_submit ms a i n (submissionKey a i n)) s))) =
       lastSubmission (fst (fst (submit_timer_fires env db
          (SetTimeout_submit ms a i n (submissionKey a i n)) s)))"
    by (simp add: submit_timer_fires_def step_lastSubmission Let_def
        submit_result_clock_independent)
  have armed: "success (result (submitManifestoAction env a i n db)) \<longrightarrow>
        lastSubmission (fst (fst (submit_timer_fires env db
          (SetTimeout_submit ms a i n (submissionKey a i n)) s))) = Some (submissionKey a i n)"
  proof
    assume ok: "success (result (submitManifestoAction env a i n db))"
    show "lastSubmission (fst (fst (submit_timer_fires env db
          (SetTimeout_submit ms a i n (submissionKey a i n)) s))) = Some (submissionKey a i n)"
      using handleSubmit_timeout_success [OF ok]
      by (simp add: submit_timer_fires_def Let_def)
  qed
  have rejected: "fields_valid s \<and>
        lastSubmission s = Some (submissionKey (action s) (selectedManifestoId s) (name s)) \<longrightarrow>
        handleSubmit s =
          (s\<lparr>feedback :=
              \<lparr>fb_text = ''Este registro j'' @ [CHR 0xE1] @ '' foi enviado recentemente!'',
               fb_type = ''error''\<rparr>\<rparr>, [])"
    by (simp add: handleSubmit_fields_valid error_feedback_def)
  have proceeds: "fields_valid s \<and> lastSubmission s = Some (submissionKey a i n)
        \<and> (a \<noteq> action s \<and> i = selectedManifestoId s \<and> n = name s
           \<or> a = action s \<and> i \<noteq> selectedManifestoId s \<and> n = name s
           \<or> a = action s \<and> i = selectedManifestoId s \<and> n \<noteq> name s) \<longrightarrow>
        snd (handleSubmit s) =
          [SetTimeout_submit 1500 (action s) (selectedManifestoId s) (name s)
             (submissionKey (action s) (selectedManifestoId s) (name s))]"
    by (auto simp: handleSubmit_fields_valid submissionKey_inject)
  have again: "handleSubmit
          ((fst (handleSubmit_timeout (action s) (selectedManifestoId s) (name s)
                  (submissionKey (action s) (selectedManifestoId s) (name s)) res
                  (fst (handleSubmit s))))
           \<lparr>name := name s, selectedManifestoId := selectedManifestoId s\<rparr>) =
          ((fst (handleSubmit_timeout (action s) (selectedManifestoId s) (name s)
                  (submissionKey (action s) (selectedManifestoId s) (name s)) res
                  (fst (handleSubmit s))))
           \<lparr>name := name s, selectedManifestoId := selectedManifestoId s,
             feedback :=
               \<lparr>fb_text = ''Este registro j'' @ [CHR 0xE1] @ '' foi enviado recentemente!'',
                fb_type = ''error''\<rparr>\<rparr>, [])"
    if v: "fields_valid s"
      and l: "lastSubmission s \<noteq> Some (submissionKey (action s) (selectedManifestoId s) (name s))"
      and ok: "success res"
  proof -
    let ?k = "submissionKey (action s) (selectedManifestoId s) (name s)"
    let ?s1 = "fst (handleSubmit s)"
    let ?s2 = "fst (handleSubmit_timeout (action s) (selectedManifestoId s) (name s) ?k res ?s1)"
    let ?s3 = "?s2\<lparr>name := name s, selectedManifestoId := selectedManifestoId s\<rparr>"
    have s1: "action ?s1 = action s" "namesList ?s1 = namesList s"
      using v l by (simp_all add: handleSubmit_fields_valid)
    have s2: "lastSubmission ?s2 = Some ?k" "action ?s2 = action s" "namesList ?s2 = namesList s"
      using handleSubmit_timeout_success [OF ok, of "action s" "selectedManifestoId s" "name s" ?k ?s1]
        s1 by simp_all
    have "fields_valid ?s3 = fields_valid s"
      by (rule fields_valid_cong) (simp_all add: s2)
    then have v3: "fields_valid ?s3"
      using v by simp
    have l3: "lastSubmission ?s3 =
        Some (submissionKey (action ?s3) (selectedManifestoId ?s3) (name ?s3))"
      by (simp add: s2)
    show ?thesis
      using handleSubmit_fields_valid [OF v3] l3 by (simp add: error_feedback_def)
  qed
  show ?thesis
    using clock armed rejected proceeds again
    by (simp only: submissionKey_inject simp_thms) blast
qed
theorem submissionKey_duplicate_guard_witness:
  "submissionKey ''Iniciar Puxe'' ''X1'' ''Ana'' = ''Iniciar Puxe-X1-Ana''
   \<and> fields_valid ex_form
   \<and> lastSubmission ex_form \<noteq> Some (submissionKey ''Iniciar Puxe'' ''X1'' ''Ana'')
   \<and> success \<lparr>success = True, message = ''Puxe registrado com sucesso!''\<rparr>
   \<and> handleSubmit
        ((fst (handleSubmit_timeout ''Iniciar Puxe'' ''X1'' ''Ana'' ''Iniciar Puxe-X1-Ana''
                \<lparr>success = True, message = ''Puxe registrado com sucesso!''\<rparr>
                (fst (handleSubmit ex_form))))
         \<lparr>name := ''Ana'', selectedManifestoId := ''X1''\<rparr>) =
       (ex_form\<lparr>updating := True, lastSubmission := Some ''Iniciar Puxe-X1-Ana'',
          feedback :=
            \<lparr>fb_text = ''Este registro j'' @ [CHR 0xE1] @ '' foi enviado recentemente!'',
             fb_type = ''error''\<rparr>\<rparr>, [])
   \<and> success (result (submitManifestoAction ex_env ''Iniciar Puxe'' ''X1'' ''Ana'' ex_db))
   \<and> lastSubmission (fst (fst (submit_timer_fires ex_env ex_db
        (SetTimeout_submit 1500 ''Iniciar Puxe'' ''X1'' ''Ana''
           (submissionKey ''Iniciar Puxe'' ''X1'' ''Ana'')) (ex_form\<lparr>loading := True\<rparr>)))) =
       Some ''Iniciar Puxe-X1-Ana''
   \<and> fields_valid (ex_form\<lparr>selectedManifestoId := ''X2'',
        lastSubmission := Some ''Iniciar Puxe-X1-Ana''\<rparr>)
   \<and> snd (handleSubmit (ex_form\<lparr>selectedManifestoId := ''X2'',
        lastSubmission := Some ''Iniciar Puxe-X1-Ana''\<rparr>)) =
       [SetTimeout_submit 1500 ''Iniciar Puxe'' ''X2'' ''Ana'' ''Iniciar Puxe-X2-Ana'']"
proof -
  have v: "fields_valid ex_form"
    by (simp add: fields_valid_def ex_form_def initial_state_def toLowerCase_examples)
  have v2: "fields_valid (ex_form\<lparr>selectedManifestoId := ''X2'',
        lastSubmission := Some ''Iniciar Puxe-X1-Ana''\<rparr>)"
    by (simp add: fields_valid_def ex_form_def initial_state_def toLowerCase_examples)
  have nt: "success (result (submitManifestoAction ex_env ''Iniciar Puxe'' ''X1'' ''Ana'' ex_db))"
    by (simp add: submit_result submit_sels submit_throws_def throws_def succeeds_def ex_env_def)
  have k: "submissionKey ''Iniciar Puxe'' ''X1'' ''Ana'' = ''Iniciar Puxe-X1-Ana''"
    by (simp add: submissionKey_def)
  have sel: "action ex_form = ''Iniciar Puxe''" "name ex_form = ''Ana''"
    "selectedManifestoId ex_form = ''X1''" "lastSubmission ex_form = None"
    by (simp_all add: ex_form_def initial_state_def)
  note again = submissionKey_duplicate_guard
    [where s = ex_form and res = "\<lparr>success = True, message = ''Puxe registrado com sucesso!''\<rparr>"
      and a = "''Iniciar Puxe''" and i = "''X1''" and n = "''Ana''" and env = ex_env
      and db = ex_db and ms = 1500]
  note other = submissionKey_duplicate_guard
    [where s = "ex_form\<lparr>selectedManifestoId := ''X2'',
        lastSubmission := Some ''Iniciar Puxe-X1-Ana''\<rparr>"
      and a = "''Iniciar Puxe''" and i = "''X1''" and n = "''Ana''"]
  have e1: "handleSubmit
        ((fst (handleSubmit_timeout ''Iniciar Puxe'' ''X1'' ''Ana'' ''Iniciar Puxe-X1-Ana''
                \<lparr>success = True, message = ''Puxe registrado com sucesso!''\<rparr>
                (fst (handleSubmit ex_form))))
         \<lparr>name := ''Ana'', selectedManifestoId := ''X1''\<rparr>) =
       ((fst (handleSubmit_timeout ''Iniciar Puxe'' ''X1'' ''Ana'' ''Iniciar Puxe-X1-Ana''
                \<lparr>success = True, message = ''Puxe registrado com sucesso!''\<rparr>
                (fst (handleSubmit ex_form))))
         \<lparr>name := ''Ana'', selectedManifestoId := ''X1'',
           feedback :=
            \<lparr>fb_text = ''Este registro j'' @ [CHR 0xE1] @ '' foi enviado recentemente!'',
             fb_type = ''error''\<rparr>\<rparr>, [])"
    using again v by (simp add: sel k)
  have e2: "(fst (handleSubmit_timeout ''Iniciar Puxe'' ''X1'' ''Ana'' ''Iniciar Puxe-X1-Ana''
                \<lparr>success = True, message = ''Puxe registrado com sucesso!''\<rparr>
                (fst (handleSubmit ex_form))))
         \<lparr>name := ''Ana'', selectedManifestoId := ''X1'',
           feedback :=
            \<lparr>fb_text = ''Este registro j'' @ [CHR 0xE1] @ '' foi enviado recentemente!'',
             fb_type = ''error''\<rparr>\<rparr> =
       ex_form\<lparr>updating := True, lastSubmission := Some ''Iniciar Puxe-X1-Ana'',
          feedback :=
            \<lparr>fb_text = ''Este registro j'' @ [CHR 0xE1] @ '' foi enviado recentemente!'',
             fb_type = ''error''\<rparr>\<rparr>"
    using v
    by (simp add: handleSubmit_fields_valid sel k handleSubmit_timeout_def and_then_def
        loadIds_def Let_def)
      (simp add: ex_form_def initial_state_def)
  note fire = submissionKey_duplicate_guard
    [where s = "ex_form\<lparr>loading := True\<rparr>" and a = "''Iniciar Puxe''" and i = "''X1''"
      and n = "''Ana''" and env = ex_env and db = ex_db and ms = 1500]
  have e3: "lastSubmission (fst (fst (submit_timer_fires ex_env ex_db
        (SetTimeout_submit 1500 ''Iniciar Puxe'' ''X1'' ''Ana''
           (submissionKey ''Iniciar Puxe'' ''X1'' ''Ana'')) (ex_form\<lparr>loading := True\<rparr>)))) =
       Some ''Iniciar Puxe-X1-Ana''"
    using fire nt by (simp add: k)
  have e4: "snd (handleSubmit (ex_form\<lparr>selectedManifestoId := ''X2'',
        lastSubmission := Some ''Iniciar Puxe-X1-Ana''\<rparr>)) =
       [SetTimeout_submit 1500 ''Iniciar Puxe'' ''X2'' ''Ana'' ''Iniciar Puxe-X2-Ana'']"
    using other v2 by (simp add: sel k) (simp add: submissionKey_def)
  show ?thesis
    using v v2 nt k e1 e2 e3 e4 by (simp add: sel)
qed

section \<open>A failed submission\<close>

text \<open>
  Claim C10. When \<^verbatim>\<open>submitManifestoAction\<close> returns \<^verbatim>\<open>success: false\<close>, the callback of
  the submit timer switches the loading overlay off and shows the returned message as
  error feedback, and writes nothing else: \<^verbatim>\<open>lastSubmission\<close>, the name, the selected
  manifest id and the list of the employee's manifests are as before. So a form that passed
  the checks and failed at the backend passes them again at once: the second click does
  what the first did. No transition of the component but the return of a successful
  submission changes \<^verbatim>\<open>lastSubmission\<close>.
\<close>

theorem handleSubmit_timeout_failure_keeps_state:
  "(\<not> success res \<longrightarrow>
      handleSubmit_timeout a i n k res s =
        (s\<lparr>loading := False,
           feedback := \<lparr>fb_text = message res, fb_type = ''error''\<rparr>\<rparr>, [])
    \<and> lastSubmission (fst (handleSubmit_timeout a i n k res s)) = lastSubmission s
    \<and> name (fst (handleSubmit_timeout a i n k res s)) = name s
    \<and> selectedManifestoId (fst (handleSubmit_timeout a i n k res s)) = selectedManifestoId s
    \<and> manifestosForEmployee (fst (handleSubmit_timeout a i n k res s)) =
        manifestosForEmployee s)
   \<and> (fields_valid s
        \<and> lastSubmission s \<noteq> Some (submissionKey (action s) (selectedManifestoId s) (name s))
        \<and> \<not> success res \<longrightarrow>
        handleSubmit
          (fst (handleSubmit_timeout (action s) (selectedManifestoId s) (name s)
                  (submissionKey (action s) (selectedManifestoId s) (name s)) res
                  (fst (handleSubmit s)))) =
          handleSubmit s
      \<and> snd (handleSubmit s) =
          [SetTimeout_submit 1500 (action s) (selectedManifestoId s) (name s)
             (submissionKey (action s) (selectedManifestoId s) (name s))])
   \<and> (lastSubmission (fst (step e s)) \<noteq> lastSubmission s \<longrightarrow>
        (\<exists>a' i' n' k' res'. e = Submit_returned a' i' n' k' res' \<and> success res'))"
proof (intro conjI impI)
  assume f: "\<not> success res"
  show "handleSubmit_timeout a i n k res s =
        (s\<lparr>loading := False,
           feedback := \<lparr>fb_text = message res, fb_type = ''error''\<rparr>\<rparr>, [])"
    and "lastSubmission (fst (handleSubmit_timeout a i n k res s)) = lastSubmission s"
    and "name (fst (handleSubmit_timeout a i n k res s)) = name s"
    and "selectedManifestoId (fst (handleSubmit_timeout a i n k res s)) = selectedManifestoId s"
    and "manifestosForEmployee (fst (handleSubmit_timeout a i n k res s)) =
        manifestosForEmployee s"
    using f by (simp_all add: handleSubmit_timeout_failure error_feedback_def)
next
  assume h: "fields_valid s
        \<and> lastSubmission s \<noteq> Some (submissionKey (action s) (selectedManifestoId s) (name s))
        \<and> \<not> success res"
  let ?k = "submissionKey (action s) (selectedManifestoId s) (name s)"
  let ?s2 = "fst (handleSubmit_timeout (action s) (selectedManifestoId s) (name s) ?k res
                  (fst (handleSubmit s)))"
  let ?t = "s\<lparr>loading := False, loadingMessage := ''Processando...'',
              feedback := error_feedback (message res)\<rparr>"
  have s2: "?s2 = ?t"
    using h by (simp add: handleSubmit_fields_valid handleSubmit_timeout_failure)
  have "fields_valid ?t = fields_valid s"
    by (rule fields_valid_cong) simp_all
  then have vt: "fields_valid ?t"
    using h by simp
  have "handleSubmit ?t = handleSubmit s"
    using h by (simp add: handleSubmit_fields_valid [OF vt] handleSubmit_fields_valid [of s])
  then show "handleSubmit ?s2 = handleSubmit s"
    by (simp only: s2)
  show "snd (handleSubmit s) =
          [SetTimeout_submit 1500 (action s) (selectedManifestoId s) (name s) ?k]"
    using h by (simp add: handleSubmit_fields_valid)
next
  assume "lastSubmission (fst (step e s)) \<noteq> lastSubmission s"
  then show "\<exists>a' i' n' k' res'. e = Submit_returned a' i' n' k' res' \<and> success res'"
    unfolding step_lastSubmission by (cases e) (auto split: if_splits)
qed

theorem handleSubmit_timeout_failure_keeps_state_witness:
  "\<not> success \<lparr>success = False, message = ''Erro ao processar: Failed to fetch''\<rparr>
   \<and> fields_valid ex_form
   \<and> lastSubmission ex_form \<noteq>
       Some (submissionKey (action ex_form) (selectedManifestoId ex_form) (name ex_form))
   \<and> handleSubmit_timeout ''Iniciar Puxe'' ''X1'' ''Ana'' ''Iniciar Puxe-X1-Ana''
        \<lparr>success = False, message = ''Erro ao processar: Failed to fetch''\<rparr>
        (ex_form\<lparr>loading := True\<rparr>) =
       (ex_form\<lparr>feedback :=
           \<lparr>fb_text = ''Erro ao processar: Failed to fetch'', fb_type = ''error''\<rparr>\<rparr>, [])
   \<and> handleSubmit
        (ex_form\<lparr>feedback :=
           \<lparr>fb_text = ''Erro ao processar: Failed to fetch'', fb_type = ''error''\<rparr>\<rparr>) =
       (ex_form\<lparr>loading := True\<rparr>,
        [SetTimeout_submit 1500 ''Iniciar Puxe'' ''X1'' ''Ana'' ''Iniciar Puxe-X1-Ana''])
   \<and> lastSubmission (fst (step (Submit_returned ''Iniciar Puxe'' ''X1'' ''Ana''
        ''Iniciar Puxe-X1-Ana'' \<lparr>success = True, message = ''Puxe registrado com sucesso!''\<rparr>)
        (ex_form\<lparr>loading := True\<rparr>))) \<noteq> lastSubmission (ex_form\<lparr>loading := True\<rparr>)"
proof -
  let ?res = "\<lparr>success = False, message = ''Erro ao processar: Failed to fetch''\<rparr>"
  have v: "fields_valid ex_form"
    by (simp add: fields_valid_def ex_form_def initial_state_def toLowerCase_examples)
  have sel: "action ex_form = ''Iniciar Puxe''" "name ex_form = ''Ana''"
    "selectedManifestoId ex_form = ''X1''" "lastSubmission ex_form = None"
    by (simp_all add: ex_form_def initial_state_def)
  have k: "submissionKey ''Iniciar Puxe'' ''X1'' ''Ana'' = ''Iniciar Puxe-X1-Ana''"
    by (simp add: submissionKey_def)
  have first: "handleSubmit ex_form =
      (ex_form\<lparr>loading := True\<rparr>,
       [SetTimeout_submit 1500 ''Iniciar Puxe'' ''X1'' ''Ana'' ''Iniciar Puxe-X1-Ana''])"
    using v by (simp add: handleSubmit_fields_valid sel k) (simp add: ex_form_def initial_state_def)
  note fail = handleSubmit_timeout_failure_keeps_state
    [where res = ?res and s = "ex_form\<lparr>loading := True\<rparr>" and a = "''Iniciar Puxe''"
      and i = "''X1''" and n = "''Ana''" and k = "''Iniciar Puxe-X1-Ana''"]
  note retry = handleSubmit_timeout_failure_keeps_state [where res = ?res and s = ex_form]
  note arm = handleSubmit_timeout_failure_keeps_state
    [where s = "ex_form\<lparr>loading := True\<rparr>"
      and e = "Submit_returned ''Iniciar Puxe'' ''X1'' ''Ana'' ''Iniciar Puxe-X1-Ana''
        \<lparr>success = True, message = ''Puxe registrado com sucesso!''\<rparr>"]
  have e1: "handleSubmit_timeout ''Iniciar Puxe'' ''X1'' ''Ana'' ''Iniciar Puxe-X1-Ana'' ?res
        (ex_form\<lparr>loading := True\<rparr>) =
       (ex_form\<lparr>feedback :=
           \<lparr>fb_text = ''Erro ao processar: Failed to fetch'', fb_type = ''error''\<rparr>\<rparr>, [])"
    using fail by (simp add: ex_form_def initial_state_def)
  have e2: "handleSubmit
        (ex_form\<lparr>feedback :=
           \<lparr>fb_text = ''Erro ao processar: Failed to fetch'', fb_type = ''error''\<rparr>\<rparr>) =
       (ex_form\<lparr>loading := True\<rparr>,
        [SetTimeout_submit 1500 ''Iniciar Puxe'' ''X1'' ''Ana'' ''Iniciar Puxe-X1-Ana''])"
    using retry v by (simp add: sel k first e1)
  have e3: "lastSubmission (fst (step (Submit_returned ''Iniciar Puxe'' ''X1'' ''Ana''
        ''Iniciar Puxe-X1-Ana'' \<lparr>success = True, message = ''Puxe registrado com sucesso!''\<rparr>)
        (ex_form\<lparr>loading := True\<rparr>))) \<noteq> lastSubmission (ex_form\<lparr>loading := True\<rparr>)"
    using arm by (simp add: handleSubmit_timeout_success sel)
  show ?thesis
    using v e1 e2 e3 by (simp add: sel k)
qed

end
